theory Spec2Isabelle
  imports Complex_Main
begin

section \<open>Values and failures\<close>

text \<open>
  The analysis service answers with a JSON document, which \<open>resp.json()\<close> turns into
  Python values: \<open>None\<close>, \<open>bool\<close>, \<open>int\<close>, \<open>float\<close>, \<open>str\<close>, \<open>list\<close> and \<open>dict\<close>.
  A \<open>dict\<close> is an association list read with \<open>map_of\<close>; a \<open>float\<close> is the
  rational number it stands for.
\<close>

datatype json =
    JNull
  | JBool bool
  | JInt int
  | JFloat rat
  | JStr string
  | JList "json list"
  | JObj "(string \<times> json) list"

type_synonym py_dict = "(string \<times> json) list"

text \<open>
  Every exception of the source is a value. \<open>IntegrityError\<close> carries the constraint
  the database refused the row for.
\<close>

datatype requests_exception = ConnectionError | Timeout

datatype integrity = NotNull | Unique | ForeignKey

datatype error =
    OSError
  | RequestException requests_exception
  | HTTPError nat
  | JSONDecodeError
  | KeyError string
  | TypeError
  | AttributeError
  | ZeroDivisionError
  | DoesNotExist
  | MultipleObjectsReturned
  | IntegrityError integrity
  | DataError
  | ValidationError

definition and_then :: "error + 'a \<Rightarrow> ('a \<Rightarrow> error + 'b) \<Rightarrow> error + 'b" where
  "and_then r f = (case r of Inl e \<Rightarrow> Inl e | Inr v \<Rightarrow> f v)"

definition succeeds :: "error + 'a \<Rightarrow> bool" where
  "succeeds r = (case r of Inl e \<Rightarrow> False | Inr v \<Rightarrow> True)"

subsection \<open>Python on JSON values\<close>

text \<open>Truth value of a Python object, as \<open>or\<close> tests it.\<close>

fun truthy :: "json \<Rightarrow> bool" where
  "truthy JNull = False"
| "truthy (JBool b) = b"
| "truthy (JInt n) = (n \<noteq> 0)"
| "truthy (JFloat q) = (q \<noteq> 0)"
| "truthy (JStr s) = (s \<noteq> [])"
| "truthy (JList xs) = (xs \<noteq> [])"
| "truthy (JObj d) = (d \<noteq> [])"

text \<open>\<open>d.get(k, default)\<close> on a dict.\<close>

definition dict_get :: "py_dict \<Rightarrow> string \<Rightarrow> json \<Rightarrow> json" where
  "dict_get d k dflt = (case map_of d k of None \<Rightarrow> dflt | Some v \<Rightarrow> v)"

text \<open>
  \<open>obj.get(k, default)\<close> and \<open>obj[k]\<close> on whatever \<open>resp.json()\<close> returned: only a
  dict has \<open>get\<close>, and no other JSON value can be subscripted with a string.
\<close>

fun py_get :: "json \<Rightarrow> string \<Rightarrow> json \<Rightarrow> error + json" where
  "py_get (JObj d) k dflt = Inr (dict_get d k dflt)"
| "py_get obj k dflt = Inl AttributeError"

fun py_getitem :: "json \<Rightarrow> string \<Rightarrow> error + json" where
  "py_getitem (JObj d) k = (case map_of d k of None \<Rightarrow> Inl (KeyError k) | Some v \<Rightarrow> Inr v)"
| "py_getitem obj k = Inl TypeError"

text \<open>
  The values a \<open>for\<close> loop draws from an object: the elements of a list, the keys of a
  dict, the characters of a string; nothing else is iterable.
\<close>

fun py_iter :: "json \<Rightarrow> error + json list" where
  "py_iter (JList xs) = Inr xs"
| "py_iter (JObj d) = Inr (map JStr (remdups (map fst d)))"
| "py_iter (JStr s) = Inr (map (\<lambda>c. JStr [c]) s)"
| "py_iter obj = Inl TypeError"

section \<open>apps/callytics/models.py\<close>

subsection \<open>Columns\<close>

text \<open>
  What a column does with the value handed to \<open>objects.create\<close>. A column takes a
  value of its own JSON type that fits its declared size (\<open>max_length\<close>, 32 bits for
  \<open>IntegerField\<close>, 64 bits for \<open>BigIntegerField\<close>); \<open>None\<close> is SQL \<open>NULL\<close>, which
  every column not declared \<open>null=True\<close> refuses. Any other value is refused here
  with \<open>DataError\<close>: a backend that converts it (a numeric string for an integer
  column) accepts more than this model, so statements about a successful write are
  made for well-typed documents only.
\<close>

definition CharField :: "nat \<Rightarrow> json \<Rightarrow> error + string" where
  "CharField max_length v =
     (case v of
        JStr s \<Rightarrow> if length s \<le> max_length then Inr s else Inl DataError
      | JNull \<Rightarrow> Inl (IntegrityError NotNull)
      | _ \<Rightarrow> Inl DataError)"

definition TextField :: "json \<Rightarrow> error + string" where
  "TextField v =
     (case v of
        JStr s \<Rightarrow> Inr s
      | JNull \<Rightarrow> Inl (IntegrityError NotNull)
      | _ \<Rightarrow> Inl DataError)"

definition TextField_null :: "json \<Rightarrow> error + string option" where
  "TextField_null v =
     (case v of
        JStr s \<Rightarrow> Inr (Some s)
      | JNull \<Rightarrow> Inr None
      | _ \<Rightarrow> Inl DataError)"

definition IntegerField :: "json \<Rightarrow> error + int" where
  "IntegerField v =
     (case v of
        JInt n \<Rightarrow> if - 2147483648 \<le> n \<and> n \<le> 2147483647 then Inr n else Inl DataError
      | JNull \<Rightarrow> Inl (IntegrityError NotNull)
      | _ \<Rightarrow> Inl DataError)"

definition BigIntegerField :: "json \<Rightarrow> error + int" where
  "BigIntegerField v =
     (case v of
        JInt n \<Rightarrow>
          if - 9223372036854775808 \<le> n \<and> n \<le> 9223372036854775807 then Inr n
          else Inl DataError
      | JNull \<Rightarrow> Inl (IntegrityError NotNull)
      | _ \<Rightarrow> Inl DataError)"

definition FloatField :: "json \<Rightarrow> error + rat" where
  "FloatField v =
     (case v of
        JInt n \<Rightarrow> Inr (of_int n)
      | JFloat q \<Rightarrow> Inr q
      | JNull \<Rightarrow> Inl (IntegrityError NotNull)
      | _ \<Rightarrow> Inl DataError)"

definition JSONField :: "json \<Rightarrow> error + json" where
  "JSONField v = (case v of JNull \<Rightarrow> Inl (IntegrityError NotNull) | _ \<Rightarrow> Inr v)"

definition BooleanField :: "json \<Rightarrow> error + bool" where
  "BooleanField v =
     (case v of
        JBool b \<Rightarrow> Inr b
      | JNull \<Rightarrow> Inl (IntegrityError NotNull)
      | _ \<Rightarrow> Inl DataError)"

subsection \<open>Rows\<close>

text \<open>
  One record per model class, one field per column, named \<open>Class_column\<close>; the
  primary key \<open>id\<close> is the one Django adds. A foreign key holds the primary key of
  the row it refers to. \<open>File.created_at\<close> is filled from the wall clock on insert
  and is not part of the rows here.
\<close>

record topic_row =
  Topic_id :: nat
  Topic_name :: string

record file_row =
  File_id :: nat
  File_name :: string
  File_topic :: nat
  File_extension :: string
  File_path :: string
  File_rate :: int
  File_bit_depth :: int
  File_channels :: int
  File_duration :: int
  File_min_freq :: int
  File_max_freq :: int
  File_rms_loud :: rat
  File_zero_cross :: int
  File_spec_cent :: int
  File_spec_bw :: int
  File_spec_flat :: int
  File_rolloff :: int
  File_chroma_stft :: json
  File_spec_contr :: json
  File_tonnetz :: json
  File_mfcc :: json
  File_summary :: "string option"
  File_conflict :: bool
  File_silence :: int

record utterance_row =
  Utterance_id :: nat
  Utterance_file :: nat
  Utterance_speaker :: string
  Utterance_sequence :: int
  Utterance_start_time :: int
  Utterance_end_time :: int
  Utterance_content :: string
  Utterance_sentiment :: string
  Utterance_profane :: bool

text \<open>
  The database: the three tables in insertion order, and for each table the last
  primary key handed out. There is no transaction in the source, so every insert is
  committed as it is made: a function that fails returns the database as the
  inserts before the failure left it.
\<close>

record db =
  topics :: "topic_row list"
  files :: "file_row list"
  utterances :: "utterance_row list"
  Topic_seq :: nat
  File_seq :: nat
  Utterance_seq :: nat

definition empty_db :: db where
  "empty_db = \<lparr>topics = [], files = [], utterances = [],
               Topic_seq = 0, File_seq = 0, Utterance_seq = 0\<rparr>"

subsection \<open>Managers\<close>

text \<open>
  \<open>Topic.objects.get(name=...)\<close>: the rows whose name is the given string. \<open>None\<close>
  asks for \<open>name IS NULL\<close>, which no row of a \<open>NOT NULL\<close> column answers.
\<close>

definition Topic_objects_get :: "db \<Rightarrow> json \<Rightarrow> error + topic_row" where
  "Topic_objects_get d name =
     (case name of
        JStr s \<Rightarrow>
          (case filter (\<lambda>t. Topic_name t = s) (topics d) of
             [] \<Rightarrow> Inl DoesNotExist
           | [t] \<Rightarrow> Inr t
           | _ \<Rightarrow> Inl MultipleObjectsReturned)
      | JNull \<Rightarrow> Inl DoesNotExist
      | _ \<Rightarrow> Inl DataError)"

definition Topic_objects_create :: "db \<Rightarrow> json \<Rightarrow> (error + topic_row) \<times> db" where
  "Topic_objects_create d name =
     (case CharField 100 name of
        Inl e \<Rightarrow> (Inl e, d)
      | Inr s \<Rightarrow>
          (let t = \<lparr>Topic_id = Suc (Topic_seq d), Topic_name = s\<rparr>
           in (Inr t, d\<lparr>topics := topics d @ [t], Topic_seq := Suc (Topic_seq d)\<rparr>)))"

text \<open>
  \<open>get_or_create\<close> returns the row and whether it made it. Only \<open>DoesNotExist\<close>
  leads to an insert; any other failure of the lookup is raised.
\<close>

definition Topic_objects_get_or_create :: "db \<Rightarrow> json \<Rightarrow> (error + topic_row \<times> bool) \<times> db" where
  "Topic_objects_get_or_create d name =
     (case Topic_objects_get d name of
        Inr t \<Rightarrow> (Inr (t, False), d)
      | Inl DoesNotExist \<Rightarrow>
          (case Topic_objects_create d name of
             (Inl e, d') \<Rightarrow> (Inl e, d')
           | (Inr t, d') \<Rightarrow> (Inr (t, True), d'))
      | Inl e \<Rightarrow> (Inl e, d))"

text \<open>
  \<open>File.objects.create(topic=topic, path=audio_path, **kwargs)\<close>: each keyword
  argument goes through its column, in the order of the class body; a keyword that
  is not given is \<open>None\<close>. The row is inserted under the next primary key.
\<close>

definition kwarg :: "py_dict \<Rightarrow> string \<Rightarrow> json" where
  "kwarg kwargs k = dict_get kwargs k JNull"

definition File_columns :: "nat \<Rightarrow> topic_row \<Rightarrow> string \<Rightarrow> py_dict \<Rightarrow> error + file_row" where
  "File_columns pk topic path kwargs =
     and_then (CharField 200 (kwarg kwargs ''name'')) (\<lambda>name.
     and_then (CharField 10 (kwarg kwargs ''extension'')) (\<lambda>extension.
     and_then (IntegerField (kwarg kwargs ''rate'')) (\<lambda>rate.
     and_then (IntegerField (kwarg kwargs ''bit_depth'')) (\<lambda>bit_depth.
     and_then (IntegerField (kwarg kwargs ''channels'')) (\<lambda>channels.
     and_then (BigIntegerField (kwarg kwargs ''duration'')) (\<lambda>duration.
     and_then (IntegerField (kwarg kwargs ''min_freq'')) (\<lambda>min_freq.
     and_then (IntegerField (kwarg kwargs ''max_freq'')) (\<lambda>max_freq.
     and_then (FloatField (kwarg kwargs ''rms_loud'')) (\<lambda>rms_loud.
     and_then (BigIntegerField (kwarg kwargs ''zero_cross'')) (\<lambda>zero_cross.
     and_then (BigIntegerField (kwarg kwargs ''spec_cent'')) (\<lambda>spec_cent.
     and_then (BigIntegerField (kwarg kwargs ''spec_bw'')) (\<lambda>spec_bw.
     and_then (BigIntegerField (kwarg kwargs ''spec_flat'')) (\<lambda>spec_flat.
     and_then (BigIntegerField (kwarg kwargs ''rolloff'')) (\<lambda>rolloff.
     and_then (JSONField (kwarg kwargs ''chroma_stft'')) (\<lambda>chroma_stft.
     and_then (JSONField (kwarg kwargs ''spec_contr'')) (\<lambda>spec_contr.
     and_then (JSONField (kwarg kwargs ''tonnetz'')) (\<lambda>tonnetz.
     and_then (JSONField (kwarg kwargs ''mfcc'')) (\<lambda>mfcc.
     and_then (TextField_null (kwarg kwargs ''summary'')) (\<lambda>summary.
     and_then (BooleanField (kwarg kwargs ''conflict'')) (\<lambda>conflict.
     and_then (BigIntegerField (kwarg kwargs ''silence'')) (\<lambda>silence.
     Inr \<lparr>File_id = pk, File_name = name, File_topic = Topic_id topic,
          File_extension = extension, File_path = path, File_rate = rate,
          File_bit_depth = bit_depth, File_channels = channels,
          File_duration = duration, File_min_freq = min_freq,
          File_max_freq = max_freq, File_rms_loud = rms_loud,
          File_zero_cross = zero_cross, File_spec_cent = spec_cent,
          File_spec_bw = spec_bw, File_spec_flat = spec_flat,
          File_rolloff = rolloff, File_chroma_stft = chroma_stft,
          File_spec_contr = spec_contr, File_tonnetz = tonnetz, File_mfcc = mfcc,
          File_summary = summary, File_conflict = conflict,
          File_silence = silence\<rparr>)))))))))))))))))))))"

definition File_objects_create ::
  "db \<Rightarrow> topic_row \<Rightarrow> string \<Rightarrow> py_dict \<Rightarrow> (error + file_row) \<times> db" where
  "File_objects_create d topic path kwargs =
     (case File_columns (Suc (File_seq d)) topic path kwargs of
        Inl e \<Rightarrow> (Inl e, d)
      | Inr f \<Rightarrow> (Inr f, d\<lparr>files := files d @ [f], File_seq := Suc (File_seq d)\<rparr>))"

text \<open>\<open>Utterance.objects.create(file=file_obj, **kwargs)\<close>.\<close>

definition Utterance_columns :: "nat \<Rightarrow> file_row \<Rightarrow> py_dict \<Rightarrow> error + utterance_row" where
  "Utterance_columns pk file kwargs =
     and_then (CharField 10 (kwarg kwargs ''speaker'')) (\<lambda>speaker.
     and_then (IntegerField (kwarg kwargs ''sequence'')) (\<lambda>sequence.
     and_then (BigIntegerField (kwarg kwargs ''start_time'')) (\<lambda>start_time.
     and_then (BigIntegerField (kwarg kwargs ''end_time'')) (\<lambda>end_time.
     and_then (TextField (kwarg kwargs ''content'')) (\<lambda>content.
     and_then (CharField 10 (kwarg kwargs ''sentiment'')) (\<lambda>sentiment.
     and_then (BooleanField (kwarg kwargs ''profane'')) (\<lambda>profane.
     Inr \<lparr>Utterance_id = pk, Utterance_file = File_id file,
          Utterance_speaker = speaker, Utterance_sequence = sequence,
          Utterance_start_time = start_time, Utterance_end_time = end_time,
          Utterance_content = content, Utterance_sentiment = sentiment,
          Utterance_profane = profane\<rparr>)))))))"

definition Utterance_objects_create ::
  "db \<Rightarrow> file_row \<Rightarrow> py_dict \<Rightarrow> (error + utterance_row) \<times> db" where
  "Utterance_objects_create d file kwargs =
     (case Utterance_columns (Suc (Utterance_seq d)) file kwargs of
        Inl e \<Rightarrow> (Inl e, d)
      | Inr u \<Rightarrow>
          (Inr u, d\<lparr>utterances := utterances d @ [u],
                    Utterance_seq := Suc (Utterance_seq d)\<rparr>))"

subsection \<open>Frames to seconds\<close>

text \<open>
  \<open>settings.HOP_LENGTH\<close> may be unset: \<open>getattr(settings, "HOP_LENGTH", 512)\<close>.
  \<open>/\<close> between Python integers is true division; its value is the exact quotient
  here, of which the \<open>float\<close> is the nearest representable number. A zero rate
  raises.
\<close>

record settings =
  CALLYTICS_URL :: "string option"
  HOP_LENGTH :: "int option"
  MEDIA_ROOT :: string

definition hop_length :: "settings \<Rightarrow> int" where
  "hop_length st = (case HOP_LENGTH st of None \<Rightarrow> 512 | Some h \<Rightarrow> h)"

definition File_duration_seconds :: "settings \<Rightarrow> file_row \<Rightarrow> error + rat" where
  "File_duration_seconds st self =
     (let hop = hop_length st; sr = File_rate self
      in if sr = 0 then Inl ZeroDivisionError
         else Inr (of_int (File_duration self * hop) / of_int sr))"

definition File_silence_seconds :: "settings \<Rightarrow> file_row \<Rightarrow> error + rat" where
  "File_silence_seconds st self =
     (let hop = hop_length st; sr = File_rate self
      in if sr = 0 then Inl ZeroDivisionError
         else Inr (of_int (File_silence self * hop) / of_int sr))"

text \<open>\<open>self.file\<close> reads the File row the foreign key points to.\<close>

definition Utterance_file_obj :: "db \<Rightarrow> utterance_row \<Rightarrow> error + file_row" where
  "Utterance_file_obj d self =
     (case find (\<lambda>f. File_id f = Utterance_file self) (files d) of
        None \<Rightarrow> Inl DoesNotExist
      | Some f \<Rightarrow> Inr f)"

definition Utterance_duration_seconds ::
  "settings \<Rightarrow> db \<Rightarrow> utterance_row \<Rightarrow> error + rat" where
  "Utterance_duration_seconds st d self =
     (let hop = hop_length st
      in and_then (Utterance_file_obj d self) (\<lambda>file.
           let sr = File_rate file
           in if sr = 0 then Inl ZeroDivisionError
              else Inr (of_int ((Utterance_end_time self - Utterance_start_time self) * hop)
                        / of_int sr)))"

section \<open>apps/callytics/clients.py\<close>

text \<open>
  What lies outside the program: whether \<open>open(audio_path, "rb")\<close> succeeds, and what
  \<open>requests.post\<close> does with the URL, the files, the form data and the timeout: it
  raises, or returns a response with a status code and a body, which \<open>resp.json()\<close>
  can parse or not.
\<close>

record response =
  status_code :: nat
  body_json :: "json option"

record world =
  file_opens :: "string \<Rightarrow> bool"
  requests_post ::
    "string option \<Rightarrow> (string \<times> string) list \<Rightarrow> py_dict \<Rightarrow> nat
       \<Rightarrow> requests_exception + response"

definition raise_for_status :: "response \<Rightarrow> error + unit" where
  "raise_for_status resp =
     (if 400 \<le> status_code resp \<and> status_code resp < 600
      then Inl (HTTPError (status_code resp)) else Inr ())"

definition response_json :: "response \<Rightarrow> error + json" where
  "response_json resp =
     (case body_json resp of None \<Rightarrow> Inl JSONDecodeError | Some j \<Rightarrow> Inr j)"

definition call_callytics :: "world \<Rightarrow> settings \<Rightarrow> string \<Rightarrow> py_dict \<Rightarrow> error + json" where
  "call_callytics w st audio_path metadata =
     (if \<not> file_opens w audio_path then Inl OSError
      else
        let files = [(''audio'', audio_path)];
            data = [(''metadata'', JObj metadata)]
        in case requests_post w (CALLYTICS_URL st) files data 120 of
             Inl x \<Rightarrow> Inl (RequestException x)
           | Inr resp \<Rightarrow> and_then (raise_for_status resp) (\<lambda>u. response_json resp))"

section \<open>apps/callytics/tasks.py\<close>

text \<open>Line 34: \<open>metadata.get("topic_name") or result.get("topic")\<close>.\<close>

definition topic_name_of :: "py_dict \<Rightarrow> json \<Rightarrow> error + json" where
  "topic_name_of metadata result =
     (let supplied = dict_get metadata ''topic_name'' JNull
      in if truthy supplied then Inr supplied else py_get result ''topic'' JNull)"

text \<open>Lines 34 and 35: the Topic row of the run.\<close>

definition resolve_topic :: "db \<Rightarrow> py_dict \<Rightarrow> json \<Rightarrow> (error + topic_row) \<times> db" where
  "resolve_topic d metadata result =
     (case topic_name_of metadata result of
        Inl e \<Rightarrow> (Inl e, d)
      | Inr topic_name \<Rightarrow>
          (case Topic_objects_get_or_create d topic_name of
             (Inl e, d') \<Rightarrow> (Inl e, d')
           | (Inr (topic, created), d') \<Rightarrow> (Inr topic, d')))"

text \<open>
  Lines 40 to 61: the keyword arguments read from \<open>result\<close>, evaluated from top to
  bottom before \<open>File.objects.create\<close> is entered.
\<close>

definition file_kwargs :: "json \<Rightarrow> error + py_dict" where
  "file_kwargs result =
     and_then (py_getitem result ''name'') (\<lambda>name.
     and_then (py_getitem result ''extension'') (\<lambda>extension.
     and_then (py_getitem result ''rate'') (\<lambda>rate.
     and_then (py_getitem result ''bit_depth'') (\<lambda>bit_depth.
     and_then (py_getitem result ''channels'') (\<lambda>channels.
     and_then (py_getitem result ''duration'') (\<lambda>duration.
     and_then (py_getitem result ''min_freq'') (\<lambda>min_freq.
     and_then (py_getitem result ''max_freq'') (\<lambda>max_freq.
     and_then (py_getitem result ''rms_loud'') (\<lambda>rms_loud.
     and_then (py_getitem result ''zero_cross'') (\<lambda>zero_cross.
     and_then (py_getitem result ''spec_cent'') (\<lambda>spec_cent.
     and_then (py_getitem result ''spec_bw'') (\<lambda>spec_bw.
     and_then (py_getitem result ''spec_flat'') (\<lambda>spec_flat.
     and_then (py_getitem result ''rolloff'') (\<lambda>rolloff.
     and_then (py_getitem result ''chroma_stft'') (\<lambda>chroma_stft.
     and_then (py_getitem result ''spec_contr'') (\<lambda>spec_contr.
     and_then (py_getitem result ''tonnetz'') (\<lambda>tonnetz.
     and_then (py_getitem result ''mfcc'') (\<lambda>mfcc.
     and_then (py_get result ''summary'' (JStr [])) (\<lambda>summary.
     and_then (py_getitem result ''conflict'') (\<lambda>conflict.
     and_then (py_getitem result ''silence'') (\<lambda>silence.
     Inr [(''name'', name), (''extension'', extension), (''rate'', rate),
          (''bit_depth'', bit_depth), (''channels'', channels),
          (''duration'', duration), (''min_freq'', min_freq),
          (''max_freq'', max_freq), (''rms_loud'', rms_loud),
          (''zero_cross'', zero_cross), (''spec_cent'', spec_cent),
          (''spec_bw'', spec_bw), (''spec_flat'', spec_flat),
          (''rolloff'', rolloff), (''chroma_stft'', chroma_stft),
          (''spec_contr'', spec_contr), (''tonnetz'', tonnetz), (''mfcc'', mfcc),
          (''summary'', summary), (''conflict'', conflict),
          (''silence'', silence)])))))))))))))))))))))"

text \<open>Lines 38 to 62.\<close>

definition create_file :: "db \<Rightarrow> topic_row \<Rightarrow> string \<Rightarrow> json \<Rightarrow> (error + file_row) \<times> db" where
  "create_file d topic audio_path result =
     (case file_kwargs result of
        Inl e \<Rightarrow> (Inl e, d)
      | Inr kwargs \<Rightarrow> File_objects_create d topic audio_path kwargs)"

text \<open>Lines 68 to 74.\<close>

definition utterance_kwargs :: "json \<Rightarrow> error + py_dict" where
  "utterance_kwargs utt =
     and_then (py_getitem utt ''speaker'') (\<lambda>speaker.
     and_then (py_getitem utt ''sequence'') (\<lambda>sequence.
     and_then (py_getitem utt ''start_time'') (\<lambda>start_time.
     and_then (py_getitem utt ''end_time'') (\<lambda>end_time.
     and_then (py_getitem utt ''content'') (\<lambda>content.
     and_then (py_getitem utt ''sentiment'') (\<lambda>sentiment.
     and_then (py_getitem utt ''profane'') (\<lambda>profane.
     Inr [(''speaker'', speaker), (''sequence'', sequence),
          (''start_time'', start_time), (''end_time'', end_time),
          (''content'', content), (''sentiment'', sentiment),
          (''profane'', profane)])))))))"

definition create_utterance :: "db \<Rightarrow> file_row \<Rightarrow> json \<Rightarrow> (error + utterance_row) \<times> db" where
  "create_utterance d file_obj utt =
     (case utterance_kwargs utt of
        Inl e \<Rightarrow> (Inl e, d)
      | Inr kwargs \<Rightarrow> Utterance_objects_create d file_obj kwargs)"

text \<open>The loop of lines 65 to 75, over the values the iteration yields.\<close>

fun create_utterances :: "db \<Rightarrow> file_row \<Rightarrow> json list \<Rightarrow> (error + unit) \<times> db" where
  "create_utterances d file_obj [] = (Inr (), d)"
| "create_utterances d file_obj (utt # utts) =
     (case create_utterance d file_obj utt of
        (Inl e, d') \<Rightarrow> (Inl e, d')
      | (Inr u, d') \<Rightarrow> create_utterances d' file_obj utts)"

text \<open>Lines 38 to 77: the File row, its Utterance rows, and the File's primary key.\<close>

definition create_rows :: "db \<Rightarrow> topic_row \<Rightarrow> string \<Rightarrow> json \<Rightarrow> (error + nat) \<times> db" where
  "create_rows d topic audio_path result =
     (case create_file d topic audio_path result of
        (Inl e, d1) \<Rightarrow> (Inl e, d1)
      | (Inr file_obj, d1) \<Rightarrow>
          (case and_then (py_get result ''utterances'' (JList [])) py_iter of
             Inl e \<Rightarrow> (Inl e, d1)
           | Inr utts \<Rightarrow>
               (case create_utterances d1 file_obj utts of
                  (Inl e, d2) \<Rightarrow> (Inl e, d2)
                | (Inr u, d2) \<Rightarrow> (Inr (File_id file_obj), d2))))"

text \<open>
  Lines 33 to 77, everything the task does once the client has returned
  \<open>result\<close>: what the specification calls \<open>persist\<close>.
\<close>

definition persist :: "db \<Rightarrow> string \<Rightarrow> py_dict \<Rightarrow> json \<Rightarrow> (error + nat) \<times> db" where
  "persist d audio_path metadata result =
     (case resolve_topic d metadata result of
        (Inl e, d') \<Rightarrow> (Inl e, d')
      | (Inr topic, d') \<Rightarrow> create_rows d' topic audio_path result)"

definition run_callytics_pipeline ::
  "world \<Rightarrow> settings \<Rightarrow> db \<Rightarrow> string \<Rightarrow> py_dict \<Rightarrow> (error + nat) \<times> db" where
  "run_callytics_pipeline w st d audio_path metadata =
     (case call_callytics w st audio_path metadata of
        Inl e \<Rightarrow> (Inl e, d)
      | Inr result \<Rightarrow> persist d audio_path metadata result)"

section \<open>apps/callytics/serializers.py and views.py\<close>

text \<open>
  The request data of a multipart upload: text fields and uploaded files, an upload
  being known by its file name. How the serializer fields of the REST framework
  read a value, and what \<open>uuid4\<close>, \<open>os.path\<close> and the default storage return, is
  left open: the view is defined for any of them.
\<close>

datatype form_value = Text string | Upload string

record platform =
  serializers_FileField :: "form_value \<Rightarrow> string option"
  serializers_IntegerField :: "form_value \<Rightarrow> int option"
  serializers_CharField :: "nat \<Rightarrow> form_value \<Rightarrow> string option"
  uuid4_hex :: string
  os_path_splitext :: "string \<Rightarrow> string \<times> string"
  default_storage_save :: "string \<Rightarrow> string \<Rightarrow> string"
  os_path_join :: "string \<Rightarrow> string \<Rightarrow> string"

record validated_data =
  audio :: string
  user_id :: int
  gender :: string
  age :: int

definition lower_char :: "char \<Rightarrow> char" where
  "lower_char c =
     (if 65 \<le> (of_char c :: nat) \<and> (of_char c :: nat) \<le> 90
      then char_of ((of_char c :: nat) + 32) else c)"

definition lower :: "string \<Rightarrow> string" where
  "lower s = map lower_char s"

definition validate_gender :: "string \<Rightarrow> error + string" where
  "validate_gender value =
     (if lower value \<notin> set [''male'', ''female'', ''other'']
      then Inl ValidationError else Inr (lower value))"

text \<open>A declared field is required: the key must be there and the field must take it.\<close>

definition run_field :: "(form_value \<Rightarrow> 'a option) \<Rightarrow> (string \<times> form_value) list \<Rightarrow> string \<Rightarrow> error + 'a" where
  "run_field field data k =
     (case map_of data k of
        None \<Rightarrow> Inl ValidationError
      | Some v \<Rightarrow> (case field v of None \<Rightarrow> Inl ValidationError | Some x \<Rightarrow> Inr x))"

definition FileUploadSerializer_is_valid ::
  "platform \<Rightarrow> (string \<times> form_value) list \<Rightarrow> error + validated_data" where
  "FileUploadSerializer_is_valid pf data =
     and_then (run_field (serializers_FileField pf) data ''audio'') (\<lambda>a.
     and_then (run_field (serializers_IntegerField pf) data ''user_id'') (\<lambda>u.
     and_then (and_then (run_field (serializers_CharField pf 10) data ''gender'')
                 validate_gender) (\<lambda>g.
     and_then (run_field (serializers_IntegerField pf) data ''age'') (\<lambda>y.
     Inr \<lparr>audio = a, user_id = u, gender = g, age = y\<rparr>))))"

text \<open>
  \<open>FileUploadView.post\<close>: what it returns is the status of the response together with
  the arguments of \<open>run_callytics_pipeline.delay\<close>.
\<close>

record accepted =
  status :: nat
  delay :: "string \<times> py_dict"

definition FileUploadView_post ::
  "platform \<Rightarrow> settings \<Rightarrow> (string \<times> form_value) list \<Rightarrow> error + accepted" where
  "FileUploadView_post pf st data =
     (case FileUploadSerializer_is_valid pf data of
        Inl e \<Rightarrow> Inl e
      | Inr vd \<Rightarrow>
          (let audio_file = audio vd;
               ext = snd (os_path_splitext pf audio_file);
               filename = ''uploads/'' @ uuid4_hex pf @ ext;
               saved_path = default_storage_save pf filename audio_file;
               full_path = os_path_join pf (MEDIA_ROOT st) saved_path;
               metadata = [(''user_id'', JInt (user_id vd)),
                           (''gender'', JStr (gender vd)),
                           (''age'', JInt (age vd))]
           in Inr \<lparr>status = 202, delay = (full_path, metadata)\<rparr>))"

section \<open>apps/consultlytics/models.py\<close>

text \<open>
  The rows of the consultation tables. \<open>Session\<close> has its own primary key
  \<open>session_id\<close>; a \<open>session\<close> column holds the \<open>session_id\<close> it refers to.
\<close>

record session_row =
  Session_session_id :: string
  Session_speech_count :: int
  Session_consulting_text :: string
  Session_asr_segments :: json

record top_noun_row =
  TopNoun_id :: nat
  TopNoun_session :: string
  TopNoun_nouns :: json

record emotion_score_row =
  EmotionScore_id :: nat
  EmotionScore_session :: string
  EmotionScore_actor :: string
  EmotionScore_star1 :: rat
  EmotionScore_star2 :: rat
  EmotionScore_star3 :: rat
  EmotionScore_star4 :: rat
  EmotionScore_star5 :: rat
  EmotionScore_avg_score :: rat
  EmotionScore_label :: string

record category_row =
  Category_id :: nat
  Category_session :: string
  Category_mid_category :: string
  Category_content_category :: string
  Category_mid_category_id :: int
  Category_result_label :: string
  Category_label_id :: int

record script_metric_row =
  ScriptMetric_id :: nat
  ScriptMetric_session :: string
  ScriptMetric_script_phrase_ratio :: rat
  ScriptMetric_honorific_ratio :: rat
  ScriptMetric_positive_word_ratio :: rat
  ScriptMetric_euphonious_word_ratio :: rat
  ScriptMetric_confirmation_ratio :: rat
  ScriptMetric_empathy_ratio :: rat
  ScriptMetric_apology_ratio :: rat
  ScriptMetric_request_ratio :: rat
  ScriptMetric_alternative_count :: int
  ScriptMetric_conflict_flag :: bool
  ScriptMetric_manual_compliance_ratio :: rat

record result_classification_row =
  ResultClassification_id :: nat
  ResultClassification_session :: string
  ResultClassification_label :: string

record consult_db =
  sessions :: "session_row list"
  top_nouns :: "top_noun_row list"
  emotion_scores :: "emotion_score_row list"
  categories :: "category_row list"
  script_metrics :: "script_metric_row list"
  result_classifications :: "result_classification_row list"

definition empty_consult_db :: consult_db where
  "empty_consult_db =
     \<lparr>sessions = [], top_nouns = [], emotion_scores = [], categories = [],
      script_metrics = [], result_classifications = []\<rparr>"

text \<open>
  An insert is refused by the constraints the class declares: the primary key of
  \<open>Session\<close>, \<open>unique_together = ("session", "actor")\<close> of \<open>EmotionScore\<close>, the
  uniqueness a \<open>OneToOneField\<close> puts on its column, and the reference of every
  \<open>session\<close> column to an existing Session. The row given to an insert carries any
  \<open>id\<close>; the table numbers it.
\<close>

definition session_exists :: "consult_db \<Rightarrow> string \<Rightarrow> bool" where
  "session_exists d s = (s \<in> set (map Session_session_id (sessions d)))"

definition Session_insert :: "consult_db \<Rightarrow> session_row \<Rightarrow> error + consult_db" where
  "Session_insert d r =
     (if session_exists d (Session_session_id r) then Inl (IntegrityError Unique)
      else Inr (d\<lparr>sessions := sessions d @ [r]\<rparr>))"

definition TopNoun_insert :: "consult_db \<Rightarrow> top_noun_row \<Rightarrow> error + consult_db" where
  "TopNoun_insert d r =
     (if \<not> session_exists d (TopNoun_session r) then Inl (IntegrityError ForeignKey)
      else Inr (d\<lparr>top_nouns :=
                   top_nouns d @ [r\<lparr>TopNoun_id := Suc (length (top_nouns d))\<rparr>]\<rparr>))"

definition EmotionScore_insert :: "consult_db \<Rightarrow> emotion_score_row \<Rightarrow> error + consult_db" where
  "EmotionScore_insert d r =
     (if (EmotionScore_session r, EmotionScore_actor r)
           \<in> set (map (\<lambda>x. (EmotionScore_session x, EmotionScore_actor x)) (emotion_scores d))
      then Inl (IntegrityError Unique)
      else if \<not> session_exists d (EmotionScore_session r)
      then Inl (IntegrityError ForeignKey)
      else Inr (d\<lparr>emotion_scores :=
                   emotion_scores d
                   @ [r\<lparr>EmotionScore_id := Suc (length (emotion_scores d))\<rparr>]\<rparr>))"

definition Category_insert :: "consult_db \<Rightarrow> category_row \<Rightarrow> error + consult_db" where
  "Category_insert d r =
     (if Category_session r \<in> set (map Category_session (categories d))
      then Inl (IntegrityError Unique)
      else if \<not> session_exists d (Category_session r)
      then Inl (IntegrityError ForeignKey)
      else Inr (d\<lparr>categories :=
                   categories d @ [r\<lparr>Category_id := Suc (length (categories d))\<rparr>]\<rparr>))"

definition ScriptMetric_insert :: "consult_db \<Rightarrow> script_metric_row \<Rightarrow> error + consult_db" where
  "ScriptMetric_insert d r =
     (if ScriptMetric_session r \<in> set (map ScriptMetric_session (script_metrics d))
      then Inl (IntegrityError Unique)
      else if \<not> session_exists d (ScriptMetric_session r)
      then Inl (IntegrityError ForeignKey)
      else Inr (d\<lparr>script_metrics :=
                   script_metrics d
                   @ [r\<lparr>ScriptMetric_id := Suc (length (script_metrics d))\<rparr>]\<rparr>))"

definition ResultClassification_insert ::
  "consult_db \<Rightarrow> result_classification_row \<Rightarrow> error + consult_db" where
  "ResultClassification_insert d r =
     (if ResultClassification_session r
           \<in> set (map ResultClassification_session (result_classifications d))
      then Inl (IntegrityError Unique)
      else if \<not> session_exists d (ResultClassification_session r)
      then Inl (IntegrityError ForeignKey)
      else Inr (d\<lparr>result_classifications :=
                   result_classifications d
                   @ [r\<lparr>ResultClassification_id :=
                          Suc (length (result_classifications d))\<rparr>]\<rparr>))"

text \<open>The databases that inserts build from the empty one.\<close>

inductive reachable :: "consult_db \<Rightarrow> bool" where
  reachable_empty: "reachable empty_consult_db"
| reachable_Session: "reachable d \<Longrightarrow> Session_insert d s = Inr d' \<Longrightarrow> reachable d'"
| reachable_TopNoun: "reachable d \<Longrightarrow> TopNoun_insert d t = Inr d' \<Longrightarrow> reachable d'"
| reachable_EmotionScore: "reachable d \<Longrightarrow> EmotionScore_insert d e = Inr d' \<Longrightarrow> reachable d'"
| reachable_Category: "reachable d \<Longrightarrow> Category_insert d c = Inr d' \<Longrightarrow> reachable d'"
| reachable_ScriptMetric: "reachable d \<Longrightarrow> ScriptMetric_insert d m = Inr d' \<Longrightarrow> reachable d'"
| reachable_ResultClassification:
    "reachable d \<Longrightarrow> ResultClassification_insert d c = Inr d' \<Longrightarrow> reachable d'"

section \<open>Documents and example inputs\<close>

text \<open>
  The required File fields of a result document, in the order the task reads them.
\<close>

definition required_file_fields :: "string list" where
  "required_file_fields =
     [''name'', ''extension'', ''rate'', ''bit_depth'', ''channels'', ''duration'',
      ''min_freq'', ''max_freq'', ''rms_loud'', ''zero_cross'', ''spec_cent'',
      ''spec_bw'', ''spec_flat'', ''rolloff'', ''chroma_stft'', ''spec_contr'',
      ''tonnetz'', ''mfcc'', ''conflict'', ''silence'']"

text \<open>
  A valid result document, following the specification: a JSON object in which
  every required field is present with a value its column takes, \<open>summary\<close> is a
  string or null when given, and \<open>utterances\<close>, when given, is an array of objects
  with the seven utterance fields, each of its column's type.
\<close>

definition has :: "py_dict \<Rightarrow> string \<Rightarrow> (json \<Rightarrow> error + 'a) \<Rightarrow> bool" where
  "has d k column = (case map_of d k of None \<Rightarrow> False | Some v \<Rightarrow> succeeds (column v))"

definition valid_utterance :: "json \<Rightarrow> bool" where
  "valid_utterance utt =
     (case utt of
        JObj d \<Rightarrow>
          has d ''speaker'' (CharField 10) \<and> has d ''sequence'' IntegerField
          \<and> has d ''start_time'' BigIntegerField \<and> has d ''end_time'' BigIntegerField
          \<and> has d ''content'' TextField \<and> has d ''sentiment'' (CharField 10)
          \<and> has d ''profane'' BooleanField
      | _ \<Rightarrow> False)"

definition valid_file_fields :: "py_dict \<Rightarrow> bool" where
  "valid_file_fields d =
     (has d ''name'' (CharField 200) \<and> has d ''extension'' (CharField 10)
      \<and> has d ''rate'' IntegerField \<and> has d ''bit_depth'' IntegerField
      \<and> has d ''channels'' IntegerField \<and> has d ''duration'' BigIntegerField
      \<and> has d ''min_freq'' IntegerField \<and> has d ''max_freq'' IntegerField
      \<and> has d ''rms_loud'' FloatField \<and> has d ''zero_cross'' BigIntegerField
      \<and> has d ''spec_cent'' BigIntegerField \<and> has d ''spec_bw'' BigIntegerField
      \<and> has d ''spec_flat'' BigIntegerField \<and> has d ''rolloff'' BigIntegerField
      \<and> has d ''chroma_stft'' JSONField \<and> has d ''spec_contr'' JSONField
      \<and> has d ''tonnetz'' JSONField \<and> has d ''mfcc'' JSONField
      \<and> has d ''conflict'' BooleanField \<and> has d ''silence'' BigIntegerField
      \<and> succeeds (TextField_null (dict_get d ''summary'' (JStr []))))"

text \<open>\<open>result.utterances\<close>: the entries of the array, none when the key is absent.\<close>

definition result_utterances :: "py_dict \<Rightarrow> json list" where
  "result_utterances d =
     (case map_of d ''utterances'' of Some (JList utts) \<Rightarrow> utts | _ \<Rightarrow> [])"

definition valid_result :: "py_dict \<Rightarrow> bool" where
  "valid_result d =
     (valid_file_fields d
      \<and> (case map_of d ''utterances'' of
            None \<Rightarrow> True
          | Some (JList utts) \<Rightarrow> list_all valid_utterance utts
          | Some other \<Rightarrow> False))"

text \<open>An Utterance row holds the values of an entry.\<close>

definition stores :: "json \<Rightarrow> utterance_row \<Rightarrow> bool" where
  "stores utt u =
     (py_getitem utt ''speaker'' = Inr (JStr (Utterance_speaker u))
      \<and> py_getitem utt ''sequence'' = Inr (JInt (Utterance_sequence u))
      \<and> py_getitem utt ''start_time'' = Inr (JInt (Utterance_start_time u))
      \<and> py_getitem utt ''end_time'' = Inr (JInt (Utterance_end_time u))
      \<and> py_getitem utt ''content'' = Inr (JStr (Utterance_content u))
      \<and> py_getitem utt ''sentiment'' = Inr (JStr (Utterance_sentiment u))
      \<and> py_getitem utt ''profane'' = Inr (JBool (Utterance_profane u)))"

text \<open>
  A database is well numbered when no row carries a primary key beyond the last one
  its table handed out; every insert keeps it so.
\<close>

definition well_numbered :: "db \<Rightarrow> bool" where
  "well_numbered d =
     (list_all (\<lambda>t. Topic_id t \<le> Topic_seq d) (topics d)
      \<and> list_all (\<lambda>f. File_id f \<le> File_seq d) (files d)
      \<and> list_all (\<lambda>u. Utterance_id u \<le> Utterance_seq d) (utterances d))"

text \<open>The document of the end-to-end scenario of the specification, with a topic.\<close>

definition example_utterance :: json where
  "example_utterance =
     JObj [(''speaker'', JStr ''agent''), (''sequence'', JInt 1),
           (''start_time'', JInt 0), (''end_time'', JInt 160),
           (''content'', JStr ''hello''), (''sentiment'', JStr ''neutral''),
           (''profane'', JBool False)]"

definition example_fields :: py_dict where
  "example_fields =
     [(''name'', JStr ''call1''), (''extension'', JStr ''.wav''),
      (''rate'', JInt 16000), (''bit_depth'', JInt 16), (''channels'', JInt 1),
      (''duration'', JInt 48000), (''min_freq'', JInt 80), (''max_freq'', JInt 8000),
      (''rms_loud'', JFloat (1 / 8)), (''zero_cross'', JInt 1200),
      (''spec_cent'', JInt 1500), (''spec_bw'', JInt 900), (''spec_flat'', JInt 3),
      (''rolloff'', JInt 4000), (''chroma_stft'', JList [JFloat (1 / 2)]),
      (''spec_contr'', JList [JInt 7]), (''tonnetz'', JList [JInt 0]),
      (''mfcc'', JList [JInt 1, JInt 2]), (''conflict'', JBool False),
      (''silence'', JInt 1600)]"

definition example_result :: py_dict where
  "example_result =
     example_fields @ [(''topic'', JStr ''billing''), (''utterances'', JList [example_utterance])]"

definition example_metadata :: py_dict where
  "example_metadata = [(''user_id'', JInt 1), (''gender'', JStr ''male''), (''age'', JInt 30)]"

definition example_settings :: settings where
  "example_settings =
     \<lparr>CALLYTICS_URL = Some ''http://callytics/predict'', HOP_LENGTH = None,
      MEDIA_ROOT = ''/media''\<rparr>"

definition example_world :: "json \<Rightarrow> world" where
  "example_world answer =
     \<lparr>file_opens = (\<lambda>p. True),
      requests_post = (\<lambda>url fs data timeout. Inr \<lparr>status_code = 200, body_json = Some answer\<rparr>)\<rparr>"

text \<open>Worlds in which the client fails, one for each way.\<close>

definition constant_world :: "bool \<Rightarrow> requests_exception + response \<Rightarrow> world" where
  "constant_world opens outcome =
     \<lparr>file_opens = (\<lambda>p. opens), requests_post = (\<lambda>url fs data timeout. outcome)\<rparr>"

text \<open>The rows the example document leaves in an empty database.\<close>

definition example_db :: db where
  "example_db = snd (persist empty_db ''/media/uploads/a.wav'' example_metadata (JObj example_result))"

definition example_file :: file_row where
  "example_file = hd (files example_db)"

definition example_row :: utterance_row where
  "example_row = hd (utterances example_db)"

text \<open>
  An upload, and a platform whose serializer fields read decimal digits, any text
  of the allowed length, and any uploaded file.
\<close>

definition decimal :: "string \<Rightarrow> int option" where
  "decimal s =
     (if s \<noteq> [] \<and> list_all (\<lambda>c. 48 \<le> (of_char c :: nat) \<and> (of_char c :: nat) \<le> 57) s
      then Some (foldl (\<lambda>n c. 10 * n + int (of_char c) - 48) 0 s) else None)"

definition example_platform :: platform where
  "example_platform =
     \<lparr>serializers_FileField = (\<lambda>v. case v of Upload n \<Rightarrow> Some n | Text s \<Rightarrow> None),
      serializers_IntegerField = (\<lambda>v. case v of Text s \<Rightarrow> decimal s | Upload n \<Rightarrow> None),
      serializers_CharField =
        (\<lambda>n v. case v of Text s \<Rightarrow> if length s \<le> n then Some s else None
                | Upload f \<Rightarrow> None),
      uuid4_hex = ''0f8fad5bd9cb469fa16570867728950e'',
      os_path_splitext = (\<lambda>p. (takeWhile (\<lambda>c. c \<noteq> CHR ''.'') p, dropWhile (\<lambda>c. c \<noteq> CHR ''.'') p)),
      default_storage_save = (\<lambda>name file. name),
      os_path_join = (\<lambda>a b. a @ ''/'' @ b)\<rparr>"

definition example_upload :: "(string \<times> form_value) list" where
  "example_upload =
     [(''audio'', Upload ''call1.wav''), (''user_id'', Text ''1''),
      (''gender'', Text ''Male''), (''age'', Text ''30''),
      (''topic_name'', Text ''billing'')]"

text \<open>Documents and metadata on which stated properties fail.\<close>

definition with_item :: "string \<Rightarrow> json \<Rightarrow> py_dict \<Rightarrow> py_dict" where
  "with_item k v d = (k, v) # filter (\<lambda>kv. fst kv \<noteq> k) d"

definition empty_name_metadata :: py_dict where
  "empty_name_metadata = with_item ''topic_name'' (JStr []) example_metadata"

definition no_topic_result :: py_dict where
  "no_topic_result = example_fields @ [(''utterances'', JList [example_utterance])]"

definition broken_utterance_result :: py_dict where
  "broken_utterance_result =
     example_fields
     @ [(''topic'', JStr ''billing''),
        (''utterances'', JList [example_utterance, JObj [(''sequence'', JInt 2)]])]"

definition nameless_result :: py_dict where
  "nameless_result = filter (\<lambda>kv. fst kv \<noteq> ''name'') example_result"




definition nameless_no_topic_result :: py_dict where
  "nameless_no_topic_result = filter (\<lambda>kv. fst kv \<noteq> ''name'') no_topic_result"

definition nameless_silent_result :: py_dict where
  "nameless_silent_result =
     filter (\<lambda>kv. fst kv \<noteq> ''name'' \<and> fst kv \<noteq> ''silence'') example_result"

text \<open>
  An utterance entry on which no column has to convert or refuse a value: it is
  valid, or it is not an object with the seven fields, so that reading its fields
  already fails.
\<close>

definition plain_utterance :: "json \<Rightarrow> bool" where
  "plain_utterance utt = (valid_utterance utt \<or> \<not> succeeds (utterance_kwargs utt))"





text \<open>A session with one row in each of its tables.\<close>

definition example_session :: session_row where
  "example_session =
     \<lparr>Session_session_id = ''s1'', Session_speech_count = 2,
      Session_consulting_text = ''hello'', Session_asr_segments = JList []\<rparr>"

definition example_emotion :: "string \<Rightarrow> emotion_score_row" where
  "example_emotion actor =
     \<lparr>EmotionScore_id = 0, EmotionScore_session = ''s1'', EmotionScore_actor = actor,
      EmotionScore_star1 = 0, EmotionScore_star2 = 0, EmotionScore_star3 = 1 / 2,
      EmotionScore_star4 = 1 / 2, EmotionScore_star5 = 0, EmotionScore_avg_score = 7 / 2,
      EmotionScore_label = ''neutral''\<rparr>"

definition example_category :: category_row where
  "example_category =
     \<lparr>Category_id = 0, Category_session = ''s1'', Category_mid_category = ''billing'',
      Category_content_category = ''refund'', Category_mid_category_id = 3,
      Category_result_label = ''satisfied'', Category_label_id = 1\<rparr>"

definition example_script_metric :: script_metric_row where
  "example_script_metric =
     \<lparr>ScriptMetric_id = 0, ScriptMetric_session = ''s1'',
      ScriptMetric_script_phrase_ratio = 1 / 2, ScriptMetric_honorific_ratio = 1,
      ScriptMetric_positive_word_ratio = 1 / 4, ScriptMetric_euphonious_word_ratio = 0,
      ScriptMetric_confirmation_ratio = 0, ScriptMetric_empathy_ratio = 1 / 4,
      ScriptMetric_apology_ratio = 0, ScriptMetric_request_ratio = 0,
      ScriptMetric_alternative_count = 1, ScriptMetric_conflict_flag = False,
      ScriptMetric_manual_compliance_ratio = 1\<rparr>"

definition example_result_classification :: result_classification_row where
  "example_result_classification =
     \<lparr>ResultClassification_id = 0, ResultClassification_session = ''s1'',
      ResultClassification_label = ''satisfied''\<rparr>"

definition example_consult_db :: consult_db where
  "example_consult_db =
     \<lparr>sessions = [example_session], top_nouns = [],
      emotion_scores = [example_emotion ''customer''\<lparr>EmotionScore_id := 1\<rparr>],
      categories = [example_category\<lparr>Category_id := 1\<rparr>],
      script_metrics = [example_script_metric\<lparr>ScriptMetric_id := 1\<rparr>],
      result_classifications =
        [example_result_classification\<lparr>ResultClassification_id := 1\<rparr>]\<rparr>"

section \<open>Reading several keys in turn\<close>

text \<open>
  \<open>getitems obj ks\<close> subscripts \<open>obj\<close> with the keys \<open>ks\<close> from left to right and
  stops at the first that fails. The keyword arguments of the task are such runs;
  the proofs go through them.
\<close>

fun getitems :: "json \<Rightarrow> string list \<Rightarrow> error + py_dict" where
  "getitems obj [] = Inr []"
| "getitems obj (k # ks) =
     and_then (py_getitem obj k)
       (\<lambda>v. and_then (getitems obj ks) (\<lambda>rest. Inr ((k, v) # rest)))"

definition utterance_fields :: "string list" where
  "utterance_fields =
     [''speaker'', ''sequence'', ''start_time'', ''end_time'', ''content'',
      ''sentiment'', ''profane'']"

definition items_of :: "py_dict \<Rightarrow> string list \<Rightarrow> py_dict" where
  "items_of d ks = map (\<lambda>k. (k, dict_get d k JNull)) ks"

definition file_kwargs_of :: "py_dict \<Rightarrow> py_dict" where
  "file_kwargs_of d =
     items_of d (take 18 required_file_fields)
     @ [(''summary'', dict_get d ''summary'' (JStr []))]
     @ items_of d (drop 18 required_file_fields)"

section \<open>Failures and columns\<close>

lemma and_then_Inl [simp]: "and_then (Inl e) f = Inl e"
  by (simp add: and_then_def)

lemma and_then_Inr [simp]: "and_then (Inr v) f = f v"
  by (simp add: and_then_def)

lemma and_then_eq_Inr: "and_then r f = Inr x \<longleftrightarrow> (\<exists>v. r = Inr v \<and> f v = Inr x)"
  by (cases r) simp_all

lemma and_then_assoc: "and_then (and_then r f) g = and_then r (\<lambda>v. and_then (f v) g)"
  by (cases r) simp_all

lemma succeeds_Inr [simp]: "succeeds (Inr v)"
  by (simp add: succeeds_def)

lemma succeeds_Inl [simp]: "\<not> succeeds (Inl e)"
  by (simp add: succeeds_def)

lemma succeeds_projr: "succeeds r \<Longrightarrow> r = Inr (projr r)"
  by (cases r) simp_all

lemma and_then_succeeds: "succeeds r \<Longrightarrow> and_then r f = f (projr r)"
  by (cases r) simp_all

lemma CharField_Inr: "CharField n v = Inr s \<longleftrightarrow> v = JStr s \<and> length s \<le> n"
  by (cases v) (auto simp: CharField_def)

lemma TextField_Inr: "TextField v = Inr s \<longleftrightarrow> v = JStr s"
  by (cases v) (auto simp: TextField_def)

lemma IntegerField_Inr:
  "IntegerField v = Inr n \<longleftrightarrow> v = JInt n \<and> - 2147483648 \<le> n \<and> n \<le> 2147483647"
  by (cases v) (auto simp: IntegerField_def)

lemma BigIntegerField_Inr:
  "BigIntegerField v = Inr n \<longleftrightarrow>
     v = JInt n \<and> - 9223372036854775808 \<le> n \<and> n \<le> 9223372036854775807"
  by (cases v) (auto simp: BigIntegerField_def)

lemma BooleanField_Inr: "BooleanField v = Inr b \<longleftrightarrow> v = JBool b"
  by (cases v) (auto simp: BooleanField_def)

lemma has_iff:
  "has d k column \<longleftrightarrow> map_of d k \<noteq> None \<and> succeeds (column (dict_get d k JNull))"
  by (auto simp: has_def dict_get_def split: option.splits)

section \<open>The keyword arguments\<close>

lemma find_append_case:
  "find P (xs @ ys) = (case find P xs of None \<Rightarrow> find P ys | Some x \<Rightarrow> Some x)"
  by (induction xs) auto

lemma getitems_missing:
  "find (\<lambda>k. map_of d k = None) ks = Some k \<Longrightarrow> getitems (JObj d) ks = Inl (KeyError k)"
  by (induction ks) (auto split: if_splits)

lemma getitems_present:
  "find (\<lambda>k. map_of d k = None) ks = None \<Longrightarrow> getitems (JObj d) ks = Inr (items_of d ks)"
  by (induction ks) (auto simp: items_of_def dict_get_def split: if_splits)

lemma getitems_Inr:
  "getitems obj ks = Inr kw \<Longrightarrow> ks \<noteq> [] \<Longrightarrow>
   \<exists>d. obj = JObj d \<and> kw = items_of d ks \<and> (\<forall>k\<in>set ks. map_of d k \<noteq> None)"
proof (induction ks arbitrary: kw)
  case Nil
  then show ?case by simp
next
  case (Cons k ks)
  from Cons.prems obtain v rest where v: "py_getitem obj k = Inr v"
    and rest: "getitems obj ks = Inr rest" and kw: "kw = (k, v) # rest"
    by (auto simp: and_then_eq_Inr)
  from v obtain d where d: "obj = JObj d" "map_of d k = Some v"
    by (cases obj) (auto split: option.splits)
  show ?case
  proof (cases "ks = []")
    case True
    with d rest kw show ?thesis by (simp add: items_of_def dict_get_def)
  next
    case False
    with Cons.IH[OF rest] d kw show ?thesis
      by (auto simp: items_of_def dict_get_def)
  qed
qed

lemma file_kwargs_getitems:
  "file_kwargs result =
     and_then (getitems result (take 18 required_file_fields)) (\<lambda>a.
     and_then (py_get result ''summary'' (JStr [])) (\<lambda>s.
     and_then (getitems result (drop 18 required_file_fields)) (\<lambda>b.
     Inr (a @ [(''summary'', s)] @ b))))"
  unfolding file_kwargs_def required_file_fields_def
  by (simp add: and_then_assoc)

lemma file_kwargs_missing:
  assumes "find (\<lambda>k. map_of d k = None) required_file_fields = Some k"
  shows "file_kwargs (JObj d) = Inl (KeyError k)"
proof -
  let ?P = "\<lambda>k. map_of d k = None"
  have split: "(case find ?P (take 18 required_file_fields) of
                  None \<Rightarrow> find ?P (drop 18 required_file_fields) | Some x \<Rightarrow> Some x) = Some k"
    using assms
      find_append_case[of ?P "take 18 required_file_fields" "drop 18 required_file_fields"]
    by simp
  show ?thesis
  proof (cases "find ?P (take 18 required_file_fields)")
    case None
    with split have "find ?P (drop 18 required_file_fields) = Some k"
      by simp
    with None show ?thesis
      by (simp add: file_kwargs_getitems getitems_present getitems_missing)
  next
    case (Some k')
    with split have "k' = k" by simp
    with Some show ?thesis
      by (simp add: file_kwargs_getitems getitems_missing)
  qed
qed

lemma file_kwargs_present:
  assumes "find (\<lambda>k. map_of d k = None) required_file_fields = None"
  shows "file_kwargs (JObj d) = Inr (file_kwargs_of d)"
proof -
  let ?P = "\<lambda>k. map_of d k = None"
  have "(case find ?P (take 18 required_file_fields) of
           None \<Rightarrow> find ?P (drop 18 required_file_fields) | Some x \<Rightarrow> Some x) = None"
    using assms
      find_append_case[of ?P "take 18 required_file_fields" "drop 18 required_file_fields"]
    by simp
  then have "find ?P (take 18 required_file_fields) = None"
    and "find ?P (drop 18 required_file_fields) = None"
    by (auto split: option.splits)
  then show ?thesis
    by (simp add: file_kwargs_getitems getitems_present file_kwargs_of_def)
qed

lemma utterance_kwargs_getitems: "utterance_kwargs utt = getitems utt utterance_fields"
  unfolding utterance_kwargs_def utterance_fields_def
  by (simp add: and_then_assoc)

section \<open>The rows that the columns build\<close>

lemma valid_file_fields_present:
  assumes "valid_file_fields d"
  shows "find (\<lambda>k. map_of d k = None) required_file_fields = None"
  using assms unfolding valid_file_fields_def has_iff required_file_fields_def
  by simp

lemma File_columns_valid:
  assumes "valid_file_fields d"
  shows "\<exists>f. File_columns pk t p (file_kwargs_of d) = Inr f
     \<and> IntegerField (dict_get d ''rate'' JNull) = Inr (File_rate f)"
  using assms unfolding valid_file_fields_def has_iff
  by (simp add: File_columns_def file_kwargs_of_def items_of_def required_file_fields_def
      kwarg_def and_then_succeeds dict_get_def[of "_ # _"] succeeds_projr[symmetric])

lemma File_columns_Inr:
  assumes "File_columns pk t p kw = Inr f"
  shows "File_id f = pk \<and> File_topic f = Topic_id t \<and> File_path f = p"
  using assms unfolding File_columns_def
  by (auto simp: and_then_eq_Inr)

lemma File_columns_rekey:
  assumes "File_columns pk t p kw = Inr f"
  shows "File_columns pk' t p kw = Inr (f\<lparr>File_id := pk'\<rparr>)"
  using assms unfolding File_columns_def
  by (auto simp: and_then_eq_Inr)

lemma Utterance_columns_Inr:
  assumes "Utterance_columns pk f (items_of d utterance_fields) = Inr u"
  shows "Utterance_id u = pk \<and> Utterance_file u = File_id f
    \<and> dict_get d ''speaker'' JNull = JStr (Utterance_speaker u)
    \<and> dict_get d ''sequence'' JNull = JInt (Utterance_sequence u)
    \<and> dict_get d ''start_time'' JNull = JInt (Utterance_start_time u)
    \<and> dict_get d ''end_time'' JNull = JInt (Utterance_end_time u)
    \<and> dict_get d ''content'' JNull = JStr (Utterance_content u)
    \<and> dict_get d ''sentiment'' JNull = JStr (Utterance_sentiment u)
    \<and> dict_get d ''profane'' JNull = JBool (Utterance_profane u)"
  using assms
  unfolding Utterance_columns_def items_of_def utterance_fields_def kwarg_def
  by (auto simp: and_then_eq_Inr dict_get_def[of "_ # _"] CharField_Inr TextField_Inr
      IntegerField_Inr BigIntegerField_Inr BooleanField_Inr)

lemma Utterance_columns_rekey:
  assumes "Utterance_columns pk f kw = Inr u"
  shows "Utterance_columns pk' f' kw
         = Inr (u\<lparr>Utterance_id := pk', Utterance_file := File_id f'\<rparr>)"
  using assms unfolding Utterance_columns_def
  by (auto simp: and_then_eq_Inr)

section \<open>Single inserts and the loop\<close>

lemma create_utterance_char:
  "create_utterance d f utt =
     (case and_then (utterance_kwargs utt) (Utterance_columns (Suc (Utterance_seq d)) f) of
        Inl e \<Rightarrow> (Inl e, d)
      | Inr u \<Rightarrow> (Inr u, d\<lparr>utterances := utterances d @ [u],
                            Utterance_seq := Suc (Utterance_seq d)\<rparr>))"
  by (cases "utterance_kwargs utt")
     (simp_all add: create_utterance_def Utterance_objects_create_def)

lemma create_utterance_Inl: "create_utterance d f utt = (Inl e, d') \<Longrightarrow> d' = d"
  by (auto simp: create_utterance_char split: sum.splits)

lemma Utterance_row_stores:
  assumes "and_then (utterance_kwargs utt) (Utterance_columns pk f) = Inr u"
  shows "Utterance_id u = pk \<and> Utterance_file u = File_id f \<and> stores utt u"
proof -
  from assms obtain kw where kw: "getitems utt utterance_fields = Inr kw"
    and u: "Utterance_columns pk f kw = Inr u"
    by (auto simp: and_then_eq_Inr utterance_kwargs_getitems)
  from getitems_Inr[OF kw] obtain d where d: "utt = JObj d" "kw = items_of d utterance_fields"
    and present: "\<forall>k\<in>set utterance_fields. map_of d k \<noteq> None"
    by (auto simp: utterance_fields_def)
  from present have item: "\<And>k. k \<in> set utterance_fields \<Longrightarrow>
      py_getitem (JObj d) k = Inr (dict_get d k JNull)"
    by (auto simp: dict_get_def split: option.splits)
  from Utterance_columns_Inr[OF u[unfolded d(2)]] item d(1) show ?thesis
    by (simp add: stores_def utterance_fields_def)
qed

lemma create_utterance_Inr:
  assumes "create_utterance d f utt = (Inr u, d')"
  shows "d' = d\<lparr>utterances := utterances d @ [u], Utterance_seq := Suc (Utterance_seq d)\<rparr>
     \<and> Utterance_id u = Suc (Utterance_seq d) \<and> Utterance_file u = File_id f \<and> stores utt u"
  using assms Utterance_row_stores[of utt "Suc (Utterance_seq d)" f u]
  by (auto simp: create_utterance_char split: sum.splits)

lemma create_utterance_valid:
  assumes "valid_utterance utt"
  shows "\<exists>u. fst (create_utterance d f utt) = Inr u"
proof -
  from assms obtain e where e: "utt = JObj e" by (cases utt) (auto simp: valid_utterance_def)
  from assms e have present: "find (\<lambda>k. map_of e k = None) utterance_fields = None"
    by (simp add: valid_utterance_def has_iff utterance_fields_def)
  from assms e have "\<exists>u. Utterance_columns (Suc (Utterance_seq d)) f (items_of e utterance_fields) = Inr u"
    unfolding valid_utterance_def has_iff
    by (simp add: Utterance_columns_def items_of_def utterance_fields_def kwarg_def
        and_then_succeeds dict_get_def[of "_ # _"])
  with present e show ?thesis
    by (auto simp: create_utterance_char utterance_kwargs_getitems getitems_present)
qed

lemma create_utterance_rekey:
  assumes "fst (create_utterance d f utt) = Inr u"
  shows "\<exists>u'. fst (create_utterance d' f' utt) = Inr u'"
proof -
  from assms obtain kw where kw: "utterance_kwargs utt = Inr kw"
    and u: "Utterance_columns (Suc (Utterance_seq d)) f kw = Inr u"
    by (auto simp: create_utterance_char and_then_eq_Inr split: sum.splits)
  from Utterance_columns_rekey[OF u] kw show ?thesis
    by (simp add: create_utterance_char)
qed

lemma create_utterances_rows:
  "create_utterances d f utts = (r, d') \<Longrightarrow>
   \<exists>rows. d' = d\<lparr>utterances := utterances d @ rows,
                  Utterance_seq := Utterance_seq d + length rows\<rparr>
     \<and> list_all2 stores (take (length rows) utts) rows
     \<and> (\<forall>u\<in>set rows. Utterance_file u = File_id f
           \<and> Utterance_seq d < Utterance_id u
           \<and> Utterance_id u \<le> Utterance_seq d + length rows)
     \<and> (r = Inr () \<longrightarrow> length rows = length utts)
     \<and> (\<forall>e. r = Inl e \<longrightarrow> length rows < length utts)"
proof (induction utts arbitrary: d)
  case Nil
  then show ?case by auto
next
  case (Cons utt utts)
  show ?case
  proof (cases "create_utterance d f utt")
    case (Pair r1 d1)
    show ?thesis
    proof (cases r1)
      case (Inl e)
      with Pair Cons.prems have r: "r = Inl e" "d' = d1" by auto
      from Pair Inl have d1: "d1 = d" by (simp add: create_utterance_Inl)
      from r d1 show ?thesis
        by (intro exI[of _ "[]"]) simp
    next
      case (Inr u)
      with Pair Cons.prems have rest: "create_utterances d1 f utts = (r, d')" by simp
      from create_utterance_Inr[OF Pair[unfolded Inr]]
      have d1: "d1 = d\<lparr>utterances := utterances d @ [u], Utterance_seq := Suc (Utterance_seq d)\<rparr>"
        and u: "Utterance_id u = Suc (Utterance_seq d)" "Utterance_file u = File_id f" "stores utt u"
        by auto
      from Cons.IH[OF rest] obtain rows where
        rows: "d' = d1\<lparr>utterances := utterances d1 @ rows,
                  Utterance_seq := Utterance_seq d1 + length rows\<rparr>"
          "list_all2 stores (take (length rows) utts) rows"
          "\<forall>u\<in>set rows. Utterance_file u = File_id f
             \<and> Utterance_seq d1 < Utterance_id u
             \<and> Utterance_id u \<le> Utterance_seq d1 + length rows"
          "r = Inr () \<longrightarrow> length rows = length utts"
          "\<forall>e. r = Inl e \<longrightarrow> length rows < length utts"
        by blast
      show ?thesis
        using rows u d1
        by (intro exI[of _ "u # rows"]) auto
    qed
  qed
qed

lemma create_utterances_valid:
  "list_all valid_utterance utts \<Longrightarrow> fst (create_utterances d f utts) = Inr ()"
proof (induction utts arbitrary: d)
  case Nil
  then show ?case by simp
next
  case (Cons utt utts)
  from Cons.prems create_utterance_valid[of utt d f] obtain u d1
    where "create_utterance d f utt = (Inr u, d1)"
    by (cases "create_utterance d f utt") auto
  with Cons show ?case by simp
qed

lemma create_utterances_rekey:
  "fst (create_utterances d f utts) = Inr () \<Longrightarrow> fst (create_utterances d' f' utts) = Inr ()"
proof (induction utts arbitrary: d d')
  case Nil
  then show ?case by simp
next
  case (Cons utt utts)
  from Cons.prems obtain u d1 where u: "create_utterance d f utt = (Inr u, d1)"
    and rest: "fst (create_utterances d1 f utts) = Inr ()"
    by (cases "create_utterance d f utt") (auto split: sum.splits)
  from u create_utterance_rekey[of d f utt u d' f'] obtain u' d1'
    where "create_utterance d' f' utt = (Inr u', d1')"
    by (cases "create_utterance d' f' utt") auto
  with Cons.IH[OF rest] show ?case by simp
qed

lemma create_file_char:
  "create_file d t p result =
     (case and_then (file_kwargs result) (File_columns (Suc (File_seq d)) t p) of
        Inl e \<Rightarrow> (Inl e, d)
      | Inr f \<Rightarrow> (Inr f, d\<lparr>files := files d @ [f], File_seq := Suc (File_seq d)\<rparr>))"
  by (cases "file_kwargs result") (simp_all add: create_file_def File_objects_create_def)

lemma create_file_Inl: "create_file d t p result = (Inl e, d') \<Longrightarrow> d' = d"
  by (auto simp: create_file_char split: sum.splits)

lemma create_file_Inr:
  assumes "create_file d t p result = (Inr f, d')"
  shows "d' = d\<lparr>files := files d @ [f], File_seq := Suc (File_seq d)\<rparr>
     \<and> File_id f = Suc (File_seq d) \<and> File_topic f = Topic_id t \<and> File_path f = p"
  using assms File_columns_Inr[of "Suc (File_seq d)" t p _ f]
  by (auto simp: create_file_char and_then_eq_Inr split: sum.splits)

lemma create_file_valid:
  assumes "valid_file_fields doc"
  shows "\<exists>f. fst (create_file d t p (JObj doc)) = Inr f
           \<and> IntegerField (dict_get doc ''rate'' JNull) = Inr (File_rate f)"
  using File_columns_valid[OF assms, of "Suc (File_seq d)" t p]
    file_kwargs_present[OF valid_file_fields_present[OF assms]]
  by (auto simp: create_file_char)

lemma create_file_missing:
  assumes "find (\<lambda>k. map_of doc k = None) required_file_fields = Some k"
  shows "create_file d t p (JObj doc) = (Inl (KeyError k), d)"
  using file_kwargs_missing[OF assms] by (simp add: create_file_char)

lemma create_file_rekey:
  assumes "create_file d t p result = (Inr f, d1)"
  shows "create_file d' t p result
         = (Inr (f\<lparr>File_id := Suc (File_seq d')\<rparr>),
            d'\<lparr>files := files d' @ [f\<lparr>File_id := Suc (File_seq d')\<rparr>],
               File_seq := Suc (File_seq d')\<rparr>)"
proof -
  from assms obtain kw where kw: "file_kwargs result = Inr kw"
    and f: "File_columns (Suc (File_seq d)) t p kw = Inr f"
    by (auto simp: create_file_char and_then_eq_Inr split: sum.splits)
  from File_columns_rekey[OF f] kw show ?thesis
    by (simp add: create_file_char)
qed

section \<open>The Topic row and the rows of a run\<close>

lemma Topic_get_or_create_others:
  assumes "Topic_objects_get_or_create d name = (res, d')"
  shows "files d' = files d \<and> utterances d' = utterances d
     \<and> File_seq d' = File_seq d \<and> Utterance_seq d' = Utterance_seq d"
  using assms
  by (auto simp: Topic_objects_get_or_create_def Topic_objects_create_def Let_def
      split: sum.splits error.splits prod.splits)

lemma Topic_get_JStr:
  "Topic_objects_get d (JStr s) =
     (case filter (\<lambda>t. Topic_name t = s) (topics d) of
        [] \<Rightarrow> Inl DoesNotExist | [t] \<Rightarrow> Inr t | _ \<Rightarrow> Inl MultipleObjectsReturned)"
  by (simp add: Topic_objects_get_def)

lemma Topic_get_or_create_name:
  assumes "Topic_objects_get_or_create d name = (Inr (t, created), d')"
  shows "\<exists>s. name = JStr s"
  using assms
  by (cases name)
     (auto simp: Topic_objects_get_or_create_def Topic_objects_get_def
        Topic_objects_create_def CharField_def Let_def
        split: sum.splits error.splits prod.splits)

lemma Topic_get_or_create_JStr:
  assumes "Topic_objects_get_or_create d (JStr s) = (Inr (t, created), d')"
  shows "Topic_name t = s
     \<and> (created \<longleftrightarrow> filter (\<lambda>t. Topic_name t = s) (topics d) = [])
     \<and> (\<not> created \<longrightarrow> d' = d \<and> t \<in> set (topics d))
     \<and> (created \<longrightarrow> d' = d\<lparr>topics := topics d @ [t], Topic_seq := Suc (Topic_seq d)\<rparr>
                      \<and> Topic_id t = Suc (Topic_seq d))
     \<and> filter (\<lambda>t. Topic_name t = s) (topics d') = [t]"
proof (cases "filter (\<lambda>t. Topic_name t = s) (topics d)")
  case Nil
  with assms show ?thesis
    by (auto simp: Topic_objects_get_or_create_def Topic_get_JStr Topic_objects_create_def
        CharField_def Let_def split: if_splits)
next
  case (Cons t1 ts)
  note c = this
  show ?thesis
  proof (cases ts)
    case Nil
    have "t1 \<in> set (filter (\<lambda>t. Topic_name t = s) (topics d))"
      using c by simp
    then have "Topic_name t1 = s" "t1 \<in> set (topics d)" by auto
    with assms c Nil show ?thesis
      by (auto simp: Topic_objects_get_or_create_def Topic_get_JStr)
  next
    case (Cons t2 ts')
    with assms c show ?thesis
      by (auto simp: Topic_objects_get_or_create_def Topic_get_JStr)
  qed
qed

lemma Topic_get_or_create_reuse:
  assumes "filter (\<lambda>t. Topic_name t = s) (topics d) = [t]"
  shows "Topic_objects_get_or_create d (JStr s) = (Inr (t, False), d)"
  using assms by (simp add: Topic_objects_get_or_create_def Topic_get_JStr)

lemma resolve_topic_Inr:
  assumes "resolve_topic d md r = (Inr t, d1)"
  shows "\<exists>s created. topic_name_of md r = Inr (JStr s)
           \<and> Topic_objects_get_or_create d (JStr s) = (Inr (t, created), d1)"
proof -
  from assms obtain name created where name: "topic_name_of md r = Inr name"
    and goc: "Topic_objects_get_or_create d name = (Inr (t, created), d1)"
    by (auto simp: resolve_topic_def split: sum.splits prod.splits)
  from Topic_get_or_create_name[OF goc] name goc show ?thesis by auto
qed

lemma resolve_topic_others:
  assumes "resolve_topic d md r = (res, d')"
  shows "files d' = files d \<and> utterances d' = utterances d
     \<and> File_seq d' = File_seq d \<and> Utterance_seq d' = Utterance_seq d"
proof (cases "topic_name_of md r")
  case (Inl e)
  with assms show ?thesis by (simp add: resolve_topic_def)
next
  case (Inr name)
  obtain res1 d1 where g: "Topic_objects_get_or_create d name = (res1, d1)"
    by (cases "Topic_objects_get_or_create d name")
  with assms Inr have "d' = d1"
    by (auto simp: resolve_topic_def split: sum.splits prod.splits)
  with Topic_get_or_create_others[OF g] show ?thesis by simp
qed

lemma resolve_topic_reuse:
  assumes "resolve_topic d md r = (Inr t, d1)" and "topics d2 = topics d1"
  shows "resolve_topic d2 md r = (Inr t, d2)"
proof -
  from resolve_topic_Inr[OF assms(1)] obtain s created where
    name: "topic_name_of md r = Inr (JStr s)"
    and goc: "Topic_objects_get_or_create d (JStr s) = (Inr (t, created), d1)"
    by blast
  from Topic_get_or_create_JStr[OF goc] assms(2)
  have "filter (\<lambda>t. Topic_name t = s) (topics d2) = [t]" by simp
  from Topic_get_or_create_reuse[OF this] name show ?thesis
    by (simp add: resolve_topic_def)
qed

lemma create_rows_file_failed:
  assumes "fst (create_file d t p r) = Inl e"
  shows "create_rows d t p r = (Inl e, d)"
proof -
  from assms obtain d1 where c: "create_file d t p r = (Inl e, d1)"
    by (cases "create_file d t p r") auto
  with create_file_Inl[OF c] show ?thesis by (simp add: create_rows_def)
qed

lemma create_rows_file_inserted:
  assumes f: "create_file d t p r = (Inr f, d1)"
    and rows: "create_rows d t p r = (res, d2)"
  shows "\<exists>rows. d2 = d1\<lparr>utterances := utterances d1 @ rows,
                         Utterance_seq := Utterance_seq d1 + length rows\<rparr>
     \<and> (\<forall>u\<in>set rows. Utterance_file u = File_id f
           \<and> Utterance_seq d1 < Utterance_id u
           \<and> Utterance_id u \<le> Utterance_seq d1 + length rows)
     \<and> (res = Inr (File_id f) \<or> (\<exists>e. res = Inl e))
     \<and> (\<forall>e. and_then (py_get r ''utterances'' (JList [])) py_iter = Inl e
            \<longrightarrow> rows = [] \<and> res = Inl e)
     \<and> (\<forall>utts. and_then (py_get r ''utterances'' (JList [])) py_iter = Inr utts
            \<longrightarrow> list_all2 stores (take (length rows) utts) rows
              \<and> (res = Inr (File_id f) \<longrightarrow> length rows = length utts)
              \<and> (\<forall>e. res = Inl e \<longrightarrow> length rows < length utts))"
proof (cases "and_then (py_get r ''utterances'' (JList [])) py_iter")
  case (Inl e)
  with f rows have "res = Inl e" "d2 = d1" by (auto simp: create_rows_def)
  with Inl show ?thesis by (intro exI[of _ "[]"]) simp
next
  case (Inr utts)
  obtain r3 d3 where loop: "create_utterances d1 f utts = (r3, d3)"
    by (cases "create_utterances d1 f utts")
  with f rows Inr have res: "d2 = d3" "res = (case r3 of Inl e \<Rightarrow> Inl e | Inr u \<Rightarrow> Inr (File_id f))"
    by (auto simp: create_rows_def split: sum.splits)
  from create_utterances_rows[OF loop] obtain rows where
    "d3 = d1\<lparr>utterances := utterances d1 @ rows,
             Utterance_seq := Utterance_seq d1 + length rows\<rparr>"
    "list_all2 stores (take (length rows) utts) rows"
    "\<forall>u\<in>set rows. Utterance_file u = File_id f
        \<and> Utterance_seq d1 < Utterance_id u
        \<and> Utterance_id u \<le> Utterance_seq d1 + length rows"
    "r3 = Inr () \<longrightarrow> length rows = length utts"
    "\<forall>e. r3 = Inl e \<longrightarrow> length rows < length utts"
    by blast
  with res Inr show ?thesis
    by (intro exI[of _ rows]) (cases r3; auto)
qed


section \<open>The example run\<close>

lemma example_db_eval:
  "example_db =
     \<lparr>topics = [\<lparr>Topic_id = 1, Topic_name = ''billing''\<rparr>],
      files = [\<lparr>File_id = 1, File_name = ''call1'', File_topic = 1,
          File_extension = ''.wav'', File_path = ''/media/uploads/a.wav'',
          File_rate = 16000, File_bit_depth = 16, File_channels = 1,
          File_duration = 48000, File_min_freq = 80, File_max_freq = 8000,
          File_rms_loud = 1 / 8, File_zero_cross = 1200,
          File_spec_cent = 1500, File_spec_bw = 900, File_spec_flat = 3,
          File_rolloff = 4000, File_chroma_stft = JList [JFloat (1 / 2)],
          File_spec_contr = JList [JInt 7], File_tonnetz = JList [JInt 0],
          File_mfcc = JList [JInt 1, JInt 2], File_summary = Some [],
          File_conflict = False, File_silence = 1600\<rparr>],
      utterances = [\<lparr>Utterance_id = 1, Utterance_file = 1,
          Utterance_speaker = ''agent'', Utterance_sequence = 1,
          Utterance_start_time = 0, Utterance_end_time = 160,
          Utterance_content = ''hello'', Utterance_sentiment = ''neutral'',
          Utterance_profane = False\<rparr>],
      Topic_seq = 1, File_seq = 1, Utterance_seq = 1\<rparr>"
  by code_simp

section \<open>Frames and seconds\<close>

text \<open>
  Claim C4. For a File row with a rate other than zero, \<open>duration_seconds\<close> is
  \<open>duration * hop_length / rate\<close> and \<open>silence_seconds\<close> is
  \<open>silence * hop_length / rate\<close>; for an Utterance row, \<open>duration_seconds\<close> is
  \<open>(end_time - start_time) * hop_length / file.rate\<close>, the rate being that of the File
  row the utterance refers to. \<open>hop_length\<close> is the setting \<open>HOP_LENGTH\<close>, 512 when it
  is unset. The values are computed from the row and the settings at the time of
  the read: no column holds them.
\<close>

theorem seconds_derived_on_read:
  "(File_rate f \<noteq> 0 \<longrightarrow>
      File_duration_seconds st f
        = Inr (of_int (File_duration f) * of_int (hop_length st) / of_int (File_rate f))
      \<and> File_silence_seconds st f
        = Inr (of_int (File_silence f) * of_int (hop_length st) / of_int (File_rate f)))
   \<and> (\<forall>file. Utterance_file_obj d u = Inr file \<and> File_rate file \<noteq> 0 \<longrightarrow>
         File_id file = Utterance_file u \<and> file \<in> set (files d)
         \<and> Utterance_duration_seconds st d u
           = Inr (of_int (Utterance_end_time u - Utterance_start_time u)
                  * of_int (hop_length st) / of_int (File_rate file)))
   \<and> (HOP_LENGTH st = None \<longrightarrow> hop_length st = 512)
   \<and> (\<forall>h. HOP_LENGTH st = Some h \<longrightarrow> hop_length st = h)"
proof -
  have own: "\<And>file. Utterance_file_obj d u = Inr file \<Longrightarrow>
      File_id file = Utterance_file u \<and> file \<in> set (files d)"
    by (auto simp: Utterance_file_obj_def find_Some_iff split: option.splits)
  show ?thesis
    using own
    by (auto simp: File_duration_seconds_def File_silence_seconds_def
        Utterance_duration_seconds_def hop_length_def Let_def)
qed

lemma example_file_eval:
  "example_file =
     \<lparr>File_id = 1, File_name = ''call1'', File_topic = 1,
          File_extension = ''.wav'', File_path = ''/media/uploads/a.wav'',
          File_rate = 16000, File_bit_depth = 16, File_channels = 1,
          File_duration = 48000, File_min_freq = 80, File_max_freq = 8000,
          File_rms_loud = 1 / 8, File_zero_cross = 1200,
          File_spec_cent = 1500, File_spec_bw = 900, File_spec_flat = 3,
          File_rolloff = 4000, File_chroma_stft = JList [JFloat (1 / 2)],
          File_spec_contr = JList [JInt 7], File_tonnetz = JList [JInt 0],
          File_mfcc = JList [JInt 1, JInt 2], File_summary = Some [],
          File_conflict = False, File_silence = 1600\<rparr>"
  by (simp add: example_file_def example_db_eval)

lemma example_row_eval:
  "example_row =
     \<lparr>Utterance_id = 1, Utterance_file = 1,
          Utterance_speaker = ''agent'', Utterance_sequence = 1,
          Utterance_start_time = 0, Utterance_end_time = 160,
          Utterance_content = ''hello'', Utterance_sentiment = ''neutral'',
          Utterance_profane = False\<rparr>"
  by (simp add: example_row_def example_db_eval)

lemma example_row_file: "Utterance_file_obj example_db example_row = Inr example_file"
  by (simp add: Utterance_file_obj_def example_row_eval example_file_eval example_db_eval)

theorem seconds_derived_on_read_witness:
  "File_rate example_file \<noteq> 0
   \<and> File_duration_seconds example_settings example_file = Inr 1536
   \<and> File_silence_seconds example_settings example_file = Inr (256 / 5)
   \<and> Utterance_file_obj example_db example_row = Inr example_file
   \<and> Utterance_duration_seconds example_settings example_db example_row = Inr (128 / 25)
   \<and> HOP_LENGTH example_settings = None
   \<and> hop_length example_settings = 512"
proof -
  have rate: "File_rate example_file \<noteq> 0"
    by (simp add: example_file_eval)
  have unset: "HOP_LENGTH example_settings = None"
    by (simp add: example_settings_def)
  note t = seconds_derived_on_read[of example_file example_settings example_db example_row]
  from t unset have hop: "hop_length example_settings = 512"
    by blast
  from t rate have
    "File_duration_seconds example_settings example_file
       = Inr (of_int (File_duration example_file) * of_int (hop_length example_settings)
              / of_int (File_rate example_file))"
    "File_silence_seconds example_settings example_file
       = Inr (of_int (File_silence example_file) * of_int (hop_length example_settings)
              / of_int (File_rate example_file))"
    by blast+
  then have secs: "File_duration_seconds example_settings example_file = Inr 1536"
    "File_silence_seconds example_settings example_file = Inr (256 / 5)"
    by (simp_all add: hop example_file_eval)
  from t example_row_file rate have
    "Utterance_duration_seconds example_settings example_db example_row
       = Inr (of_int (Utterance_end_time example_row - Utterance_start_time example_row)
              * of_int (hop_length example_settings) / of_int (File_rate example_file))"
    by blast
  then have utt: "Utterance_duration_seconds example_settings example_db example_row
       = Inr (128 / 25)"
    by (simp add: hop example_file_eval example_row_eval)
  from rate secs example_row_file utt unset hop show ?thesis
    by blast
qed

section \<open>A failing client\<close>

text \<open>
  Claim C5. When the call to the analysis service fails, the task fails with that
  failure and the database is the one it started with: no Topic, File or Utterance
  row is written, nothing of lines 33 to 77 having run. The call fails when the
  audio file cannot be opened (\<open>OSError\<close>), when \<open>requests.post\<close> raises because the
  request cannot be sent or times out (\<open>RequestException\<close>), when the status is one
  \<open>raise_for_status\<close> refuses, from 400 to 599 (\<open>HTTPError\<close>), and when the body is
  not JSON (\<open>JSONDecodeError\<close>).
\<close>

theorem client_failure_fails_the_task:
  "(\<forall>e. call_callytics w st audio_path metadata = Inl e \<longrightarrow>
        run_callytics_pipeline w st d audio_path metadata = (Inl e, d))
   \<and> (\<not> file_opens w audio_path \<longrightarrow>
        run_callytics_pipeline w st d audio_path metadata = (Inl OSError, d))
   \<and> (\<forall>x. file_opens w audio_path
          \<and> requests_post w (CALLYTICS_URL st) [(''audio'', audio_path)]
                [(''metadata'', JObj metadata)] 120 = Inl x \<longrightarrow>
        run_callytics_pipeline w st d audio_path metadata = (Inl (RequestException x), d))
   \<and> (\<forall>resp. file_opens w audio_path
          \<and> requests_post w (CALLYTICS_URL st) [(''audio'', audio_path)]
                [(''metadata'', JObj metadata)] 120 = Inr resp
          \<and> 400 \<le> status_code resp \<and> status_code resp < 600 \<longrightarrow>
        run_callytics_pipeline w st d audio_path metadata
          = (Inl (HTTPError (status_code resp)), d))
   \<and> (\<forall>resp. file_opens w audio_path
          \<and> requests_post w (CALLYTICS_URL st) [(''audio'', audio_path)]
                [(''metadata'', JObj metadata)] 120 = Inr resp
          \<and> \<not> (400 \<le> status_code resp \<and> status_code resp < 600)
          \<and> body_json resp = None \<longrightarrow>
        run_callytics_pipeline w st d audio_path metadata = (Inl JSONDecodeError, d))"
  by (simp add: run_callytics_pipeline_def call_callytics_def raise_for_status_def
      response_json_def Let_def)

theorem client_failure_fails_the_task_witness:
  "run_callytics_pipeline (constant_world False (Inl Timeout)) example_settings example_db
      ''/media/uploads/a.wav'' example_metadata = (Inl OSError, example_db)
   \<and> run_callytics_pipeline (constant_world True (Inl Timeout)) example_settings example_db
      ''/media/uploads/a.wav'' example_metadata = (Inl (RequestException Timeout), example_db)
   \<and> run_callytics_pipeline
        (constant_world True (Inr \<lparr>status_code = 503, body_json = Some (JObj example_result)\<rparr>))
        example_settings example_db ''/media/uploads/a.wav'' example_metadata
      = (Inl (HTTPError 503), example_db)
   \<and> run_callytics_pipeline
        (constant_world True (Inr \<lparr>status_code = 200, body_json = None\<rparr>))
        example_settings example_db ''/media/uploads/a.wav'' example_metadata
      = (Inl JSONDecodeError, example_db)"
proof -
  let ?p = "''/media/uploads/a.wav''"
  let ?busy = "\<lparr>status_code = 503, body_json = Some (JObj example_result)\<rparr>"
  let ?html = "\<lparr>status_code = 200, body_json = None\<rparr>"
  have closed: "\<not> file_opens (constant_world False (Inl Timeout)) ?p"
    by (simp add: constant_world_def)
  have slow: "file_opens (constant_world True (Inl Timeout)) ?p
      \<and> requests_post (constant_world True (Inl Timeout)) (CALLYTICS_URL example_settings)
           [(''audio'', ?p)] [(''metadata'', JObj example_metadata)] 120 = Inl Timeout"
    by (simp add: constant_world_def)
  have busy: "file_opens (constant_world True (Inr ?busy)) ?p
      \<and> requests_post (constant_world True (Inr ?busy)) (CALLYTICS_URL example_settings)
           [(''audio'', ?p)] [(''metadata'', JObj example_metadata)] 120 = Inr ?busy
      \<and> 400 \<le> status_code ?busy \<and> status_code ?busy < 600"
    by (simp add: constant_world_def)
  have html: "file_opens (constant_world True (Inr ?html)) ?p
      \<and> requests_post (constant_world True (Inr ?html)) (CALLYTICS_URL example_settings)
           [(''audio'', ?p)] [(''metadata'', JObj example_metadata)] 120 = Inr ?html
      \<and> \<not> (400 \<le> status_code ?html \<and> status_code ?html < 600)
      \<and> body_json ?html = None"
    by (simp add: constant_world_def)
  have r1: "run_callytics_pipeline (constant_world False (Inl Timeout)) example_settings
      example_db ?p example_metadata = (Inl OSError, example_db)"
    using client_failure_fails_the_task[of "constant_world False (Inl Timeout)"
        example_settings ?p example_metadata example_db] closed
    by blast
  have r2: "run_callytics_pipeline (constant_world True (Inl Timeout)) example_settings
      example_db ?p example_metadata = (Inl (RequestException Timeout), example_db)"
    using client_failure_fails_the_task[of "constant_world True (Inl Timeout)"
        example_settings ?p example_metadata example_db] slow
    by blast
  have r3: "run_callytics_pipeline (constant_world True (Inr ?busy)) example_settings
      example_db ?p example_metadata = (Inl (HTTPError (status_code ?busy)), example_db)"
    using client_failure_fails_the_task[of "constant_world True (Inr ?busy)"
        example_settings ?p example_metadata example_db] busy
    by blast
  have r4: "run_callytics_pipeline (constant_world True (Inr ?html)) example_settings
      example_db ?p example_metadata = (Inl JSONDecodeError, example_db)"
    using client_failure_fails_the_task[of "constant_world True (Inr ?html)"
        example_settings ?p example_metadata example_db] html
    by blast
  from r1 r2 r3 r4 show ?thesis by simp
qed

section \<open>The upload boundary\<close>

lemma example_upload_eval:
  "FileUploadView_post example_platform example_settings example_upload
   = Inr \<lparr>status = 202,
          delay = (''/media/uploads/0f8fad5bd9cb469fa16570867728950e.wav'',
                   [(''user_id'', JInt 1), (''gender'', JStr ''male''), (''age'', JInt 30)])\<rparr>"
  by code_simp

text \<open>
  Claim C9. For every upload the view accepts, the metadata handed to
  \<open>run_callytics_pipeline.delay\<close> has exactly the keys \<open>user_id\<close>, \<open>gender\<close> and
  \<open>age\<close>, whatever the request carried, and so no \<open>topic_name\<close>: with that
  metadata the topic name of the task is \<open>result.get("topic")\<close>, for every result.
\<close>

theorem upload_metadata_has_no_topic_name:
  assumes "FileUploadView_post pf st data = Inr acc"
  shows "map fst (snd (delay acc)) = [''user_id'', ''gender'', ''age'']
     \<and> map_of (snd (delay acc)) ''topic_name'' = None
     \<and> (\<forall>result. topic_name_of (snd (delay acc)) result = py_get result ''topic'' JNull)
     \<and> status acc = 202"
proof (cases "FileUploadSerializer_is_valid pf data")
  case (Inl e)
  with assms show ?thesis by (simp add: FileUploadView_post_def)
next
  case (Inr vd)
  with assms have
    "snd (delay acc) = [(''user_id'', JInt (user_id vd)), (''gender'', JStr (gender vd)),
                        (''age'', JInt (age vd))]"
    and "status acc = 202"
    by (auto simp: FileUploadView_post_def Let_def)
  then show ?thesis
    by (simp add: topic_name_of_def dict_get_def)
qed

theorem upload_metadata_has_no_topic_name_witness:
  "map_of example_upload ''topic_name'' = Some (Text ''billing'')
   \<and> (\<exists>acc. FileUploadView_post example_platform example_settings example_upload = Inr acc
          \<and> snd (delay acc)
              = [(''user_id'', JInt 1), (''gender'', JStr ''male''), (''age'', JInt 30)]
          \<and> map_of (snd (delay acc)) ''topic_name'' = None
          \<and> topic_name_of (snd (delay acc)) (JObj example_result) = Inr (JStr ''billing''))"
proof -
  let ?acc = "\<lparr>status = 202,
          delay = (''/media/uploads/0f8fad5bd9cb469fa16570867728950e.wav'',
                   [(''user_id'', JInt 1), (''gender'', JStr ''male''), (''age'', JInt 30)])\<rparr>"
  note t = upload_metadata_has_no_topic_name[OF example_upload_eval]
  from t have none: "map_of (snd (delay ?acc)) ''topic_name'' = None"
    by blast
  from t have "topic_name_of (snd (delay ?acc)) (JObj example_result)
      = py_get (JObj example_result) ''topic'' JNull"
    by blast
  also have "\<dots> = Inr (JStr ''billing'')"
    by (simp add: example_result_def example_fields_def dict_get_def)
  finally have name: "topic_name_of (snd (delay ?acc)) (JObj example_result)
      = Inr (JStr ''billing'')" .
  have req: "map_of example_upload ''topic_name'' = Some (Text ''billing'')"
    by (simp add: example_upload_def)
  have "snd (delay ?acc)
      = [(''user_id'', JInt 1), (''gender'', JStr ''male''), (''age'', JInt 30)]"
    by simp
  with example_upload_eval none name req show ?thesis
    by blast
qed

section \<open>The topic of a run\<close>

lemma create_rows_topics:
  assumes "create_rows d t p r = (res, d')"
  shows "topics d' = topics d"
proof (cases "create_file d t p r")
  case (Pair rf d1)
  show ?thesis
  proof (cases rf)
    case (Inl e)
    with Pair create_rows_file_failed[of d t p r e] assms show ?thesis by simp
  next
    case (Inr f)
    from create_rows_file_inserted[OF Pair[unfolded Inr] assms]
      create_file_Inr[OF Pair[unfolded Inr]]
    show ?thesis by auto
  qed
qed

lemma persist_topics:
  assumes "persist d p md r = (res, d2)" and "resolve_topic d md r = (Inr t, d1)"
  shows "topics d2 = topics d1"
  using assms create_rows_topics[of d1 t p r res d2]
  by (simp add: persist_def)

lemma example_empty_name_eval:
  "resolve_topic empty_db empty_name_metadata (JObj example_result)
   = (Inr \<lparr>Topic_id = 1, Topic_name = ''billing''\<rparr>,
      \<lparr>topics = [\<lparr>Topic_id = 1, Topic_name = ''billing''\<rparr>], files = [], utterances = [],
       Topic_seq = 1, File_seq = 0, Utterance_seq = 0\<rparr>)"
  by code_simp

text \<open>
  Claim C6 as stated fails: a \<open>topic_name\<close> that is present but empty is passed over
  by \<open>or\<close>, and the Topic is the one \<open>result.topic\<close> names.
\<close>

theorem topic_name_present_but_empty:
  "map_of empty_name_metadata ''topic_name'' = Some (JStr [])
   \<and> topic_name_of empty_name_metadata (JObj example_result) = Inr (JStr ''billing'')
   \<and> map Topic_name
        (topics (snd (resolve_topic empty_db empty_name_metadata (JObj example_result))))
      = [''billing'']"
  by (simp add: example_empty_name_eval)
     (simp add: empty_name_metadata_def with_item_def topic_name_of_def dict_get_def
        example_result_def example_fields_def)

text \<open>
  Claim C6, amended. The topic name is \<open>metadata.topic_name\<close> when that is present
  and true in the sense of Python (a non-empty string), and \<open>result.topic\<close>
  otherwise. \<open>get_or_create\<close> looks the name up by equality: it creates a Topic row
  exactly when no row has the name, and otherwise returns a row of that name and
  leaves the database as it is. Once a run has resolved its Topic, a later run with
  the same topic name gets the same row, and no Topic row is added.
\<close>

theorem topic_resolved_by_truth_value:
  "topic_name_of md (JObj doc)
     = Inr (if truthy (dict_get md ''topic_name'' JNull) then dict_get md ''topic_name'' JNull
            else dict_get doc ''topic'' JNull)
   \<and> (\<forall>t created d'. Topic_objects_get_or_create d (JStr s) = (Inr (t, created), d') \<longrightarrow>
         Topic_name t = s
         \<and> (created \<longleftrightarrow> s \<notin> set (map Topic_name (topics d)))
         \<and> (created \<longrightarrow> topics d' = topics d @ [t])
         \<and> (\<not> created \<longrightarrow> t \<in> set (topics d) \<and> d' = d))
   \<and> (\<forall>t d1 res d2 md' r'.
         resolve_topic d md r = (Inr t, d1) \<and> persist d p md r = (res, d2)
         \<and> topic_name_of md' r' = topic_name_of md r \<longrightarrow>
         resolve_topic d2 md' r' = (Inr t, d2))"
proof -
  have name: "topic_name_of md (JObj doc)
     = Inr (if truthy (dict_get md ''topic_name'' JNull) then dict_get md ''topic_name'' JNull
            else dict_get doc ''topic'' JNull)"
    by (simp add: topic_name_of_def Let_def)
  have goc: "\<And>t created d'. Topic_objects_get_or_create d (JStr s) = (Inr (t, created), d')
     \<Longrightarrow> Topic_name t = s
         \<and> (created \<longleftrightarrow> s \<notin> set (map Topic_name (topics d)))
         \<and> (created \<longrightarrow> topics d' = topics d @ [t])
         \<and> (\<not> created \<longrightarrow> t \<in> set (topics d) \<and> d' = d)"
  proof -
    fix t created d'
    assume a: "Topic_objects_get_or_create d (JStr s) = (Inr (t, created), d')"
    have "filter (\<lambda>t. Topic_name t = s) (topics d) = [] \<longleftrightarrow> s \<notin> set (map Topic_name (topics d))"
      by (auto simp: filter_empty_conv)
    with Topic_get_or_create_JStr[OF a]
    show "Topic_name t = s
         \<and> (created \<longleftrightarrow> s \<notin> set (map Topic_name (topics d)))
         \<and> (created \<longrightarrow> topics d' = topics d @ [t])
         \<and> (\<not> created \<longrightarrow> t \<in> set (topics d) \<and> d' = d)"
      by auto
  qed
  have again: "\<And>t d1 res d2 md' r'.
         resolve_topic d md r = (Inr t, d1) \<Longrightarrow> persist d p md r = (res, d2)
         \<Longrightarrow> topic_name_of md' r' = topic_name_of md r
         \<Longrightarrow> resolve_topic d2 md' r' = (Inr t, d2)"
  proof -
    fix t d1 res d2 md' r'
    assume rt: "resolve_topic d md r = (Inr t, d1)" and ps: "persist d p md r = (res, d2)"
      and same: "topic_name_of md' r' = topic_name_of md r"
    from resolve_topic_reuse[OF rt persist_topics[OF ps rt]]
    have "resolve_topic d2 md r = (Inr t, d2)" .
    with same show "resolve_topic d2 md' r' = (Inr t, d2)"
      by (simp add: resolve_topic_def)
  qed
  from name goc again show ?thesis by blast
qed

lemma example_resolve_eval:
  "resolve_topic empty_db example_metadata (JObj example_result)
   = (Inr \<lparr>Topic_id = 1, Topic_name = ''billing''\<rparr>,
      \<lparr>topics = [\<lparr>Topic_id = 1, Topic_name = ''billing''\<rparr>], files = [], utterances = [],
       Topic_seq = 1, File_seq = 0, Utterance_seq = 0\<rparr>)"
  by code_simp

lemma example_persist_eval:
  "persist empty_db ''/media/uploads/a.wav'' example_metadata (JObj example_result)
   = (Inr 1, example_db)"
  by code_simp

lemma example_get_or_create_eval:
  "Topic_objects_get_or_create empty_db (JStr ''billing'')
   = (Inr (\<lparr>Topic_id = 1, Topic_name = ''billing''\<rparr>, True),
      \<lparr>topics = [\<lparr>Topic_id = 1, Topic_name = ''billing''\<rparr>], files = [], utterances = [],
       Topic_seq = 1, File_seq = 0, Utterance_seq = 0\<rparr>)"
  by code_simp

theorem topic_resolved_by_truth_value_witness:
  "topic_name_of (with_item ''topic_name'' (JStr ''sales'') example_metadata) (JObj example_result)
     = Inr (JStr ''sales'')
   \<and> topic_name_of example_metadata (JObj example_result) = Inr (JStr ''billing'')
   \<and> ''billing'' \<notin> set (map Topic_name (topics empty_db))
   \<and> topics (snd (Topic_objects_get_or_create empty_db (JStr ''billing'')))
       = topics empty_db @ [\<lparr>Topic_id = 1, Topic_name = ''billing''\<rparr>]
   \<and> resolve_topic example_db example_metadata (JObj example_result)
       = (Inr \<lparr>Topic_id = 1, Topic_name = ''billing''\<rparr>, example_db)"
proof -
  let ?t = "\<lparr>Topic_id = 1, Topic_name = ''billing''\<rparr>"
  let ?sales = "with_item ''topic_name'' (JStr ''sales'') example_metadata"
  let ?p = "''/media/uploads/a.wav''"
  have s1: "dict_get ?sales ''topic_name'' JNull = JStr ''sales''"
    by (simp add: with_item_def dict_get_def)
  have s2: "dict_get example_metadata ''topic_name'' JNull = JNull"
    "dict_get example_result ''topic'' JNull = JStr ''billing''"
    by (simp_all add: example_metadata_def example_result_def example_fields_def dict_get_def)
  from topic_resolved_by_truth_value[of ?sales example_result empty_db "''billing''"
      "JObj example_result" ?p] s1
  have n1: "topic_name_of ?sales (JObj example_result) = Inr (JStr ''sales'')"
    by simp
  note t = topic_resolved_by_truth_value[of example_metadata example_result empty_db
      "''billing''" "JObj example_result" ?p]
  from t s2 have n2: "topic_name_of example_metadata (JObj example_result) = Inr (JStr ''billing'')"
    by simp
  from t example_get_or_create_eval
  have g: "''billing'' \<notin> set (map Topic_name (topics empty_db))"
    "topics (snd (Topic_objects_get_or_create empty_db (JStr ''billing'')))
       = topics empty_db @ [?t]"
    by (metis snd_conv)+
  from t example_resolve_eval example_persist_eval
  have again: "resolve_topic example_db example_metadata (JObj example_result) = (Inr ?t, example_db)"
    by blast
  from n1 n2 g again show ?thesis by blast
qed

section \<open>A document with a missing field\<close>

lemma first_missing:
  assumes "k \<in> set ks" and "map_of doc k = None"
  shows "\<exists>k'. find (\<lambda>k. map_of doc k = None) ks = Some k'"
  using assms by (cases "find (\<lambda>k. map_of doc k = None) ks") (auto simp: find_None_iff)

lemma persist_file_failed:
  assumes "\<And>d1 t. fst (create_file d1 t p r) = Inl e"
  shows "\<exists>e'. fst (persist d p md r) = Inl e'
     \<and> files (snd (persist d p md r)) = files d
     \<and> utterances (snd (persist d p md r)) = utterances d
     \<and> (\<forall>t d1. resolve_topic d md r = (Inr t, d1) \<longrightarrow> e' = e)"
proof (cases "resolve_topic d md r")
  case (Pair rt d1)
  note others = resolve_topic_others[OF Pair]
  show ?thesis
  proof (cases rt)
    case (Inl e0)
    with Pair others show ?thesis by (simp add: persist_def)
  next
    case (Inr t)
    from create_rows_file_failed[OF assms, of d1 t]
    have "create_rows d1 t p r = (Inl e, d1)" .
    with Pair Inr others show ?thesis by (simp add: persist_def)
  qed
qed

lemma example_nameless_no_topic_eval:
  "persist empty_db ''/media/uploads/a.wav'' example_metadata (JObj nameless_no_topic_result)
   = (Inl (IntegrityError NotNull), empty_db)"
  by code_simp

lemma example_nameless_eval:
  "persist empty_db ''/media/uploads/a.wav'' example_metadata (JObj nameless_result)
   = (Inl (KeyError ''name''),
      \<lparr>topics = [\<lparr>Topic_id = 1, Topic_name = ''billing''\<rparr>], files = [], utterances = [],
       Topic_seq = 1, File_seq = 0, Utterance_seq = 0\<rparr>)"
  by code_simp

text \<open>
  Claim C3 as stated fails: where the document names no topic either, and the
  metadata has no \<open>topic_name\<close>, the Topic row cannot be made and the failure is the
  \<open>IntegrityError\<close> of \<open>get_or_create\<close>, raised before any File field is read.
\<close>

theorem missing_field_but_no_key_error:
  "''name'' \<in> set required_file_fields
   \<and> map_of nameless_no_topic_result ''name'' = None
   \<and> fst (persist empty_db ''/media/uploads/a.wav'' example_metadata
            (JObj nameless_no_topic_result))
       = Inl (IntegrityError NotNull)"
  by (simp add: example_nameless_no_topic_eval)
     (simp add: required_file_fields_def nameless_no_topic_result_def no_topic_result_def
        example_fields_def)

section \<open>A valid document\<close>

lemma create_rows_Inr:
  assumes "create_rows d t p r = (Inr i, d')"
  shows "\<exists>f d1 utts. create_file d t p r = (Inr f, d1)
     \<and> and_then (py_get r ''utterances'' (JList [])) py_iter = Inr utts
     \<and> create_utterances d1 f utts = (Inr (), d') \<and> i = File_id f"
  using assms
  by (auto simp: create_rows_def split: sum.splits prod.splits)

lemma create_rows_compose:
  assumes "create_file d t p r = (Inr f, d1)"
    and "and_then (py_get r ''utterances'' (JList [])) py_iter = Inr utts"
    and "create_utterances d1 f utts = (Inr (), d')"
  shows "create_rows d t p r = (Inr (File_id f), d')"
  using assms by (simp add: create_rows_def)

lemma valid_result_utterances:
  assumes "valid_result doc"
  shows "and_then (py_get (JObj doc) ''utterances'' (JList [])) py_iter
           = Inr (result_utterances doc)
     \<and> list_all valid_utterance (result_utterances doc)"
proof (cases "map_of doc ''utterances''")
  case None
  then show ?thesis by (simp add: result_utterances_def dict_get_def)
next
  case (Some v)
  with assms obtain utts where v: "v = JList utts" and "list_all valid_utterance utts"
    by (cases v) (auto simp: valid_result_def)
  with Some show ?thesis by (simp add: result_utterances_def dict_get_def)
qed

lemma create_rows_valid:
  assumes "valid_result doc"
  shows "\<exists>f rows.
      create_rows d t p (JObj doc)
        = (Inr (File_id f),
           d\<lparr>files := files d @ [f], File_seq := Suc (File_seq d),
             utterances := utterances d @ rows,
             Utterance_seq := Utterance_seq d + length rows\<rparr>)
      \<and> File_id f = Suc (File_seq d) \<and> File_topic f = Topic_id t \<and> File_path f = p
      \<and> IntegerField (dict_get doc ''rate'' JNull) = Inr (File_rate f)
      \<and> list_all2 stores (result_utterances doc) rows
      \<and> (\<forall>u\<in>set rows. Utterance_file u = File_id f)"
proof -
  from assms have vf: "valid_file_fields doc" by (simp add: valid_result_def)
  from create_file_valid[OF vf, of d t p] obtain f d1 where
    cf: "create_file d t p (JObj doc) = (Inr f, d1)"
    and rate: "IntegerField (dict_get doc ''rate'' JNull) = Inr (File_rate f)"
    by (cases "create_file d t p (JObj doc)") auto
  note f = create_file_Inr[OF cf]
  from valid_result_utterances[OF assms] have
    it: "and_then (py_get (JObj doc) ''utterances'' (JList [])) py_iter
           = Inr (result_utterances doc)"
    and vu: "list_all valid_utterance (result_utterances doc)"
    by simp_all
  from create_utterances_valid[OF vu, of d1 f] obtain d2 where
    cu: "create_utterances d1 f (result_utterances doc) = (Inr (), d2)"
    by (cases "create_utterances d1 f (result_utterances doc)") auto
  from create_utterances_rows[OF cu] obtain rows where
    d2: "d2 = d1\<lparr>utterances := utterances d1 @ rows,
                 Utterance_seq := Utterance_seq d1 + length rows\<rparr>"
    and st: "list_all2 stores (take (length rows) (result_utterances doc)) rows"
    and ref: "\<forall>u\<in>set rows. Utterance_file u = File_id f"
    and len: "length rows = length (result_utterances doc)"
    by auto
  from st len have st': "list_all2 stores (result_utterances doc) rows" by simp
  have "create_rows d t p (JObj doc) = (Inr (File_id f), d2)"
    by (rule create_rows_compose[OF cf it cu])
  with d2 f rate st' ref show ?thesis
    by (intro exI[of _ f] exI[of _ rows]) simp
qed

lemma example_no_topic_valid: "valid_result no_topic_result"
  by code_simp

lemma example_no_topic_eval:
  "persist empty_db ''/media/uploads/a.wav'' example_metadata (JObj no_topic_result)
   = (Inl (IntegrityError NotNull), empty_db)"
  by code_simp

lemma example_valid: "valid_result example_result"
  by code_simp

text \<open>
  Claim C2 as stated fails: a document with every required field, but no \<open>topic\<close>,
  persisted with the metadata of the upload view, makes no File row: the Topic row
  cannot be made without a name.
\<close>

theorem valid_document_but_no_file_row:
  "valid_result no_topic_result
   \<and> list_all (\<lambda>k. map_of no_topic_result k \<noteq> None) required_file_fields
   \<and> fst (persist empty_db ''/media/uploads/a.wav'' example_metadata (JObj no_topic_result))
       = Inl (IntegrityError NotNull)
   \<and> files (snd (persist empty_db ''/media/uploads/a.wav'' example_metadata
                    (JObj no_topic_result))) = []"
  by (simp add: example_no_topic_eval example_no_topic_valid)
     (simp add: required_file_fields_def no_topic_result_def example_fields_def empty_db_def)

text \<open>
  Claim C2, amended. For every valid result document for which the Topic step has
  given a Topic row, persist succeeds: it appends exactly one File row, of that
  Topic and of the given path, and returns its primary key; it appends one
  Utterance row for each entry of \<open>result.utterances\<close>, in the order of the entries
  and holding their values (none when the key is absent), and every such row
  refers to the new File row.
\<close>

theorem valid_document_one_file_and_its_utterances:
  assumes "valid_result doc"
    and "resolve_topic d md (JObj doc) = (Inr t, d1)"
  shows "\<exists>f rows d2.
      persist d p md (JObj doc) = (Inr (File_id f), d2)
      \<and> files d2 = files d @ [f]
      \<and> File_topic f = Topic_id t \<and> File_path f = p
      \<and> utterances d2 = utterances d @ rows
      \<and> length rows = length (result_utterances doc)
      \<and> list_all2 stores (result_utterances doc) rows
      \<and> (\<forall>u\<in>set rows. Utterance_file u = File_id f)
      \<and> (map_of doc ''utterances'' = None \<longrightarrow> rows = [])"
proof -
  from create_rows_valid[OF assms(1), of d1 t p] obtain f rows where
    cr: "create_rows d1 t p (JObj doc)
        = (Inr (File_id f),
           d1\<lparr>files := files d1 @ [f], File_seq := Suc (File_seq d1),
              utterances := utterances d1 @ rows,
              Utterance_seq := Utterance_seq d1 + length rows\<rparr>)"
    and f: "File_topic f = Topic_id t" "File_path f = p"
    and st: "list_all2 stores (result_utterances doc) rows"
    and ref: "\<forall>u\<in>set rows. Utterance_file u = File_id f"
    by blast
  let ?d2 = "d1\<lparr>files := files d1 @ [f], File_seq := Suc (File_seq d1),
              utterances := utterances d1 @ rows,
              Utterance_seq := Utterance_seq d1 + length rows\<rparr>"
  from assms(2) cr have ps: "persist d p md (JObj doc) = (Inr (File_id f), ?d2)"
    by (simp add: persist_def)
  from resolve_topic_others[OF assms(2)] have
    tables: "files ?d2 = files d @ [f]" "utterances ?d2 = utterances d @ rows"
    by simp_all
  from st have len: "length rows = length (result_utterances doc)"
    by (simp add: list_all2_lengthD)
  then have absent: "map_of doc ''utterances'' = None \<longrightarrow> rows = []"
    by (auto simp: result_utterances_def)
  show ?thesis
    by (intro exI[of _ f] exI[of _ rows] exI[of _ ?d2] conjI)
       (rule ps tables f st ref len absent)+
qed

theorem valid_document_one_file_and_its_utterances_witness:
  "valid_result example_result
   \<and> fst (resolve_topic empty_db example_metadata (JObj example_result))
       = Inr \<lparr>Topic_id = 1, Topic_name = ''billing''\<rparr>
   \<and> (\<exists>f rows. persist empty_db ''/media/uploads/a.wav'' example_metadata (JObj example_result)
                  = (Inr (File_id f), example_db)
        \<and> files example_db = [f] \<and> utterances example_db = rows
        \<and> length rows = 1 \<and> list_all2 stores [example_utterance] rows)"
proof -
  let ?p = "''/media/uploads/a.wav''"
  from valid_document_one_file_and_its_utterances[OF example_valid example_resolve_eval, of ?p]
  obtain f rows d2 where
    ps: "persist empty_db ?p example_metadata (JObj example_result) = (Inr (File_id f), d2)"
    and fs: "files d2 = files empty_db @ [f]"
    and us: "utterances d2 = utterances empty_db @ rows"
    and st: "list_all2 stores (result_utterances example_result) rows"
    by blast
  from ps example_persist_eval have d2: "d2 = example_db" by simp
  have utts: "result_utterances example_result = [example_utterance]"
    by (simp add: result_utterances_def example_result_def example_fields_def)
  from st utts have len: "length rows = 1" by (auto dest: list_all2_lengthD)
  from fs us d2 have tabs: "files example_db = [f]" "utterances example_db = rows"
    by (simp_all add: empty_db_def)
  have rt: "fst (resolve_topic empty_db example_metadata (JObj example_result))
       = Inr \<lparr>Topic_id = 1, Topic_name = ''billing''\<rparr>"
    by (simp add: example_resolve_eval)
  from ps d2 tabs len st utts example_valid rt show ?thesis
    by auto
qed

section \<open>A run that fails half way\<close>

lemma example_broken_eval:
  "run_callytics_pipeline (constant_world True
        (Inr \<lparr>status_code = 200, body_json = Some (JObj broken_utterance_result)\<rparr>))
      example_settings empty_db ''/media/uploads/a.wav'' example_metadata
   = (Inl (KeyError ''speaker''), example_db)"
  by code_simp

lemma example_broken_persist_eval:
  "persist empty_db ''/media/uploads/a.wav'' example_metadata (JObj broken_utterance_result)
   = (Inl (KeyError ''speaker''), example_db)"
  by code_simp

lemma example_broken_resolve_eval:
  "resolve_topic empty_db example_metadata (JObj broken_utterance_result)
   = (Inr \<lparr>Topic_id = 1, Topic_name = ''billing''\<rparr>,
      \<lparr>topics = [\<lparr>Topic_id = 1, Topic_name = ''billing''\<rparr>], files = [], utterances = [],
       Topic_seq = 1, File_seq = 0, Utterance_seq = 0\<rparr>)"
  by code_simp

lemma example_broken_file_eval:
  "create_file
     \<lparr>topics = [\<lparr>Topic_id = 1, Topic_name = ''billing''\<rparr>], files = [], utterances = [],
      Topic_seq = 1, File_seq = 0, Utterance_seq = 0\<rparr>
     \<lparr>Topic_id = 1, Topic_name = ''billing''\<rparr> ''/media/uploads/a.wav''
     (JObj broken_utterance_result)
   = (Inr example_file,
      \<lparr>topics = [\<lparr>Topic_id = 1, Topic_name = ''billing''\<rparr>], files = [example_file],
       utterances = [], Topic_seq = 1, File_seq = 1, Utterance_seq = 0\<rparr>)"
  by code_simp

text \<open>
  Claim C1 as stated fails: the second utterance of the document has no
  \<open>speaker\<close>, the task fails with \<open>KeyError\<close> after the File row and the first
  Utterance row have been inserted, and both rows are in the database afterwards.
\<close>

theorem file_row_survives_a_failed_run:
  "fst (run_callytics_pipeline
          (constant_world True
             (Inr \<lparr>status_code = 200, body_json = Some (JObj broken_utterance_result)\<rparr>))
          example_settings empty_db ''/media/uploads/a.wav'' example_metadata)
     = Inl (KeyError ''speaker'')
   \<and> map File_name
        (files (snd (run_callytics_pipeline
           (constant_world True
              (Inr \<lparr>status_code = 200, body_json = Some (JObj broken_utterance_result)\<rparr>))
           example_settings empty_db ''/media/uploads/a.wav'' example_metadata)))
       = [''call1'']
   \<and> map Utterance_content
        (utterances (snd (run_callytics_pipeline
           (constant_world True
              (Inr \<lparr>status_code = 200, body_json = Some (JObj broken_utterance_result)\<rparr>))
           example_settings empty_db ''/media/uploads/a.wav'' example_metadata)))
       = [''hello'']"
  by (simp add: example_broken_eval) (simp add: example_db_eval)

section \<open>The first missing field\<close>

lemma persist_topic_resolved:
  assumes "resolve_topic d md r = (Inr t, d1)"
  shows "persist d p md r = create_rows d1 t p r"
  using assms by (simp add: persist_def)

lemma persist_topic_failed:
  assumes "resolve_topic d md r = (Inl e, d1)"
  shows "persist d p md r = (Inl e, d1)"
  using assms by (simp add: persist_def)

lemma example_nameless_silent_eval:
  "persist empty_db ''/media/uploads/a.wav'' example_metadata (JObj nameless_silent_result)
   = (Inl (KeyError ''name''),
      \<lparr>topics = [\<lparr>Topic_id = 1, Topic_name = ''billing''\<rparr>], files = [], utterances = [],
       Topic_seq = 1, File_seq = 0, Utterance_seq = 0\<rparr>)"
  by code_simp

lemma example_nameless_silent_resolve_eval:
  "resolve_topic empty_db example_metadata (JObj nameless_silent_result)
   = (Inr \<lparr>Topic_id = 1, Topic_name = ''billing''\<rparr>,
      \<lparr>topics = [\<lparr>Topic_id = 1, Topic_name = ''billing''\<rparr>], files = [], utterances = [],
       Topic_seq = 1, File_seq = 0, Utterance_seq = 0\<rparr>)"
  by code_simp

text \<open>
  Claim C3, amended. Let a result document lack a required File field, and take
  the first such field in the order of \<open>name\<close>, \<open>extension\<close>, \<open>rate\<close>, ... ,
  \<open>conflict\<close>, \<open>silence\<close>, in which lines 40 to 61 read them. Reading the File
  fields (lines 38 to 62) raises \<open>KeyError\<close> for that field and leaves the database
  as it is, whatever the database, the Topic and the path. So persist creates no
  File row and no Utterance row, and no field is given a default: when the Topic
  step before has succeeded, persist fails with the \<open>KeyError\<close> of that first field,
  in the database the Topic step left; when the Topic step has failed, persist
  fails with the failure of the Topic step.
\<close>

theorem missing_field_is_a_key_error:
  assumes "k \<in> set required_file_fields" and "map_of doc k = None"
  shows "\<exists>i<length required_file_fields.
       map_of doc (required_file_fields ! i) = None
     \<and> (\<forall>j<i. map_of doc (required_file_fields ! j) \<noteq> None)
     \<and> (\<forall>d t p. create_file d t p (JObj doc)
                   = (Inl (KeyError (required_file_fields ! i)), d))
     \<and> (\<forall>d p md.
            files (snd (persist d p md (JObj doc))) = files d
          \<and> utterances (snd (persist d p md (JObj doc))) = utterances d
          \<and> (\<forall>t d1. resolve_topic d md (JObj doc) = (Inr t, d1) \<longrightarrow>
                 persist d p md (JObj doc)
                   = (Inl (KeyError (required_file_fields ! i)), d1))
          \<and> (\<forall>e d1. resolve_topic d md (JObj doc) = (Inl e, d1) \<longrightarrow>
                 persist d p md (JObj doc) = (Inl e, d1)))"
proof -
  let ?P = "\<lambda>k. map_of doc k = None"
  from first_missing[OF assms] obtain k' where
    k': "find ?P required_file_fields = Some k'"
    by blast
  then obtain i where i: "i < length required_file_fields"
    and ki: "k' = required_file_fields ! i"
    and miss: "map_of doc (required_file_fields ! i) = None"
    and before: "\<forall>j<i. map_of doc (required_file_fields ! j) \<noteq> None"
    by (auto simp: find_Some_iff)
  have kerr: "\<And>d t p. create_file d t p (JObj doc)
      = (Inl (KeyError (required_file_fields ! i)), d)"
    using create_file_missing[OF k'] ki by simp
  have tables: "\<And>d p md. files (snd (persist d p md (JObj doc))) = files d
      \<and> utterances (snd (persist d p md (JObj doc))) = utterances d"
  proof -
    fix d p md
    have "\<And>d1 t. fst (create_file d1 t p (JObj doc)) = Inl (KeyError (required_file_fields ! i))"
      by (simp add: kerr)
    from persist_file_failed[of p "JObj doc" "KeyError (required_file_fields ! i)" d md, OF this]
    show "files (snd (persist d p md (JObj doc))) = files d
      \<and> utterances (snd (persist d p md (JObj doc))) = utterances d"
      by blast
  qed
  have ok: "\<And>d p md t d1. resolve_topic d md (JObj doc) = (Inr t, d1) \<Longrightarrow>
      persist d p md (JObj doc) = (Inl (KeyError (required_file_fields ! i)), d1)"
  proof -
    fix d p md t d1
    assume rt: "resolve_topic d md (JObj doc) = (Inr t, d1)"
    have "fst (create_file d1 t p (JObj doc)) = Inl (KeyError (required_file_fields ! i))"
      by (simp add: kerr)
    from create_rows_file_failed[OF this] persist_topic_resolved[OF rt, of p]
    show "persist d p md (JObj doc) = (Inl (KeyError (required_file_fields ! i)), d1)"
      by simp
  qed
  have bad: "\<And>d p md e d1. resolve_topic d md (JObj doc) = (Inl e, d1) \<Longrightarrow>
      persist d p md (JObj doc) = (Inl e, d1)"
    by (rule persist_topic_failed)
  from i miss before kerr tables ok bad show ?thesis
    by (intro exI[of _ i]) blast
qed

theorem missing_field_is_a_key_error_witness:
  "''silence'' \<in> set required_file_fields
   \<and> map_of nameless_silent_result ''silence'' = None
   \<and> map_of nameless_silent_result ''name'' = None
   \<and> persist empty_db ''/media/uploads/a.wav'' example_metadata (JObj nameless_silent_result)
       = (Inl (KeyError ''name''),
          \<lparr>topics = [\<lparr>Topic_id = 1, Topic_name = ''billing''\<rparr>], files = [],
           utterances = [], Topic_seq = 1, File_seq = 0, Utterance_seq = 0\<rparr>)"
proof -
  let ?p = "''/media/uploads/a.wav''"
  let ?d1 = "\<lparr>topics = [\<lparr>Topic_id = 1, Topic_name = ''billing''\<rparr>], files = [],
           utterances = [], Topic_seq = 1, File_seq = 0, Utterance_seq = 0\<rparr>"
  have mem: "''silence'' \<in> set required_file_fields"
    by (simp add: required_file_fields_def)
  have none: "map_of nameless_silent_result ''silence'' = None"
    and name: "map_of nameless_silent_result ''name'' = None"
    by (simp_all add: nameless_silent_result_def example_result_def example_fields_def)
  have zero: "required_file_fields ! 0 = ''name''"
    by (simp add: required_file_fields_def)
  from missing_field_is_a_key_error[OF mem none] obtain i where
    before: "\<forall>j<i. map_of nameless_silent_result (required_file_fields ! j) \<noteq> None"
    and ps: "\<forall>t d1. resolve_topic empty_db example_metadata (JObj nameless_silent_result)
                 = (Inr t, d1) \<longrightarrow>
             persist empty_db ?p example_metadata (JObj nameless_silent_result)
                 = (Inl (KeyError (required_file_fields ! i)), d1)"
    by blast
  have "i = 0"
  proof (rule ccontr)
    assume "i \<noteq> 0"
    then have "0 < i" by simp
    with before have "map_of nameless_silent_result (required_file_fields ! 0) \<noteq> None"
      by blast
    with name zero show False by simp
  qed
  with ps example_nameless_silent_resolve_eval zero
  have "persist empty_db ?p example_metadata (JObj nameless_silent_result)
      = (Inl (KeyError ''name''), ?d1)"
    by simp
  with mem none name show ?thesis by blast
qed

section \<open>What a failing run leaves\<close>

lemma valid_utterance_readable:
  assumes "valid_utterance utt"
  shows "succeeds (utterance_kwargs utt)"
proof -
  from assms obtain e where e: "utt = JObj e"
    by (cases utt) (auto simp: valid_utterance_def)
  from assms e have "find (\<lambda>k. map_of e k = None) utterance_fields = None"
    by (simp add: valid_utterance_def has_iff utterance_fields_def)
  with e show ?thesis
    by (simp add: utterance_kwargs_getitems getitems_present)
qed

lemma create_utterance_unreadable:
  assumes "utterance_kwargs utt = Inl e"
  shows "create_utterance d f utt = (Inl e, d)"
  using assms by (simp add: create_utterance_def)

lemma create_utterances_plain:
  "create_utterances d f utts = (res, d') \<Longrightarrow> list_all plain_utterance utts \<Longrightarrow>
   \<exists>rows. d' = d\<lparr>utterances := utterances d @ rows,
                  Utterance_seq := Utterance_seq d + length rows\<rparr>
     \<and> list_all2 stores (takeWhile valid_utterance utts) rows
     \<and> (\<forall>u\<in>set rows. Utterance_file u = File_id f)
     \<and> (list_all valid_utterance utts \<longrightarrow> res = Inr ())
     \<and> (\<not> list_all valid_utterance utts \<longrightarrow>
          res = Inl (projl (utterance_kwargs (hd (dropWhile valid_utterance utts))))
          \<and> \<not> succeeds (utterance_kwargs (hd (dropWhile valid_utterance utts))))"
proof (induction utts arbitrary: d)
  case Nil
  then show ?case by auto
next
  case (Cons utt utts)
  show ?case
  proof (cases "valid_utterance utt")
    case True
    from create_utterance_valid[OF True, of d f] obtain u d1 where
      cu: "create_utterance d f utt = (Inr u, d1)"
      by (cases "create_utterance d f utt") auto
    from create_utterance_Inr[OF cu]
    have d1: "d1 = d\<lparr>utterances := utterances d @ [u], Utterance_seq := Suc (Utterance_seq d)\<rparr>"
      and u: "Utterance_file u = File_id f" "stores utt u"
      by auto
    from cu Cons.prems have rest: "create_utterances d1 f utts = (res, d')"
      and plain: "list_all plain_utterance utts"
      by simp_all
    from Cons.IH[OF rest plain] obtain rows where
      rows: "d' = d1\<lparr>utterances := utterances d1 @ rows,
                  Utterance_seq := Utterance_seq d1 + length rows\<rparr>"
        "list_all2 stores (takeWhile valid_utterance utts) rows"
        "\<forall>u\<in>set rows. Utterance_file u = File_id f"
        "list_all valid_utterance utts \<longrightarrow> res = Inr ()"
        "\<not> list_all valid_utterance utts \<longrightarrow>
          res = Inl (projl (utterance_kwargs (hd (dropWhile valid_utterance utts))))
          \<and> \<not> succeeds (utterance_kwargs (hd (dropWhile valid_utterance utts)))"
      by blast
    show ?thesis
      using rows u d1 True
      by (intro exI[of _ "u # rows"]) auto
  next
    case False
    with Cons.prems have unread: "\<not> succeeds (utterance_kwargs utt)"
      by (simp add: plain_utterance_def)
    then obtain e where e: "utterance_kwargs utt = Inl e"
      by (cases "utterance_kwargs utt") simp_all
    from create_utterance_unreadable[OF e, of d f] Cons.prems
    have "res = Inl e" "d' = d" by simp_all
    with False e unread show ?thesis
      by (intro exI[of _ "[]"]) simp
  qed
qed

lemma example_broken_iter_eval:
  "and_then (py_get (JObj broken_utterance_result) ''utterances'' (JList [])) py_iter
   = Inr [example_utterance, JObj [(''sequence'', JInt 2)]]"
  by code_simp

lemma example_broken_plain:
  "list_all plain_utterance [example_utterance, JObj [(''sequence'', JInt 2)]]"
  by code_simp

lemma example_broken_prefix:
  "takeWhile valid_utterance [example_utterance, JObj [(''sequence'', JInt 2)]]
   = [example_utterance]"
  by code_simp

lemma example_broken_first_failure:
  "utterance_kwargs (hd (dropWhile valid_utterance
      [example_utterance, JObj [(''sequence'', JInt 2)]])) = Inl (KeyError ''speaker'')"
  by code_simp

lemma example_broken_not_all:
  "\<not> list_all valid_utterance [example_utterance, JObj [(''sequence'', JInt 2)]]"
  by code_simp

text \<open>
  Claim C1, amended. The writes of persist are made one after the other and each
  is kept: there is no transaction around them. Once the File row has been
  inserted it is in the table when persist ends, whether persist succeeds or
  fails. If the utterances cannot be iterated, persist fails with that failure
  and no Utterance row is added. Otherwise, for entries that are each either
  valid or unreadable (not an object with the seven fields), the Utterance rows
  added are exactly those of the entries before the first unreadable one, in
  their order, holding their values and referring to the File row: when every
  entry is valid, that is all of them and persist returns the key of the File
  row; when not, persist fails with the failure of reading that first unreadable
  entry, and the File row and the rows of the entries before it stay.
\<close>

theorem writes_are_kept_one_by_one:
  assumes "resolve_topic d md r = (Inr t, d1)"
    and "create_file d1 t p r = (Inr f, d2)"
    and "persist d p md r = (res, d3)"
  shows "files d3 = files d @ [f]
     \<and> (\<forall>e. and_then (py_get r ''utterances'' (JList [])) py_iter = Inl e \<longrightarrow>
           res = Inl e \<and> utterances d3 = utterances d)
     \<and> (\<forall>utts. and_then (py_get r ''utterances'' (JList [])) py_iter = Inr utts
              \<and> list_all plain_utterance utts \<longrightarrow>
           (\<exists>rows. utterances d3 = utterances d @ rows
              \<and> list_all2 stores (takeWhile valid_utterance utts) rows
              \<and> (\<forall>u\<in>set rows. Utterance_file u = File_id f)
              \<and> (list_all valid_utterance utts \<longrightarrow> res = Inr (File_id f))
              \<and> (\<not> list_all valid_utterance utts \<longrightarrow>
                   \<not> succeeds (utterance_kwargs (hd (dropWhile valid_utterance utts)))
                   \<and> res = Inl (projl (utterance_kwargs
                                         (hd (dropWhile valid_utterance utts)))))))"
proof -
  from assms(1,3) have cr: "create_rows d1 t p r = (res, d3)"
    by (simp add: persist_def)
  note o = resolve_topic_others[OF assms(1)]
  note f = create_file_Inr[OF assms(2)]
  have files: "files d3 = files d @ [f]"
    using create_rows_file_inserted[OF assms(2) cr] f o by auto
  have no_iter: "\<And>e. and_then (py_get r ''utterances'' (JList [])) py_iter = Inl e \<Longrightarrow>
      res = Inl e \<and> utterances d3 = utterances d"
    using create_rows_file_inserted[OF assms(2) cr] f o by auto
  have loop: "\<And>utts. and_then (py_get r ''utterances'' (JList [])) py_iter = Inr utts
      \<Longrightarrow> list_all plain_utterance utts \<Longrightarrow>
      \<exists>rows. utterances d3 = utterances d @ rows
         \<and> list_all2 stores (takeWhile valid_utterance utts) rows
         \<and> (\<forall>u\<in>set rows. Utterance_file u = File_id f)
         \<and> (list_all valid_utterance utts \<longrightarrow> res = Inr (File_id f))
         \<and> (\<not> list_all valid_utterance utts \<longrightarrow>
              \<not> succeeds (utterance_kwargs (hd (dropWhile valid_utterance utts)))
              \<and> res = Inl (projl (utterance_kwargs (hd (dropWhile valid_utterance utts)))))"
  proof -
    fix utts
    assume it: "and_then (py_get r ''utterances'' (JList [])) py_iter = Inr utts"
      and plain: "list_all plain_utterance utts"
    obtain r3 where cu: "create_utterances d2 f utts = (r3, d3)"
      and res: "res = (case r3 of Inl e \<Rightarrow> Inl e | Inr u \<Rightarrow> Inr (File_id f))"
      using cr assms(2) it
      by (cases "create_utterances d2 f utts") (auto simp: create_rows_def split: sum.splits)
    from create_utterances_plain[OF cu plain] obtain rows where
      d3: "d3 = d2\<lparr>utterances := utterances d2 @ rows,
                   Utterance_seq := Utterance_seq d2 + length rows\<rparr>"
      and st: "list_all2 stores (takeWhile valid_utterance utts) rows"
      and ref: "\<forall>u\<in>set rows. Utterance_file u = File_id f"
      and all: "list_all valid_utterance utts \<longrightarrow> r3 = Inr ()"
      and stop: "\<not> list_all valid_utterance utts \<longrightarrow>
          r3 = Inl (projl (utterance_kwargs (hd (dropWhile valid_utterance utts))))
          \<and> \<not> succeeds (utterance_kwargs (hd (dropWhile valid_utterance utts)))"
      by blast
    from d3 f o have us: "utterances d3 = utterances d @ rows" by simp
    from all res have all': "list_all valid_utterance utts \<longrightarrow> res = Inr (File_id f)"
      by simp
    from stop res have stop': "\<not> list_all valid_utterance utts \<longrightarrow>
          \<not> succeeds (utterance_kwargs (hd (dropWhile valid_utterance utts)))
          \<and> res = Inl (projl (utterance_kwargs (hd (dropWhile valid_utterance utts))))"
      by simp
    from us st ref all' stop' show
      "\<exists>rows. utterances d3 = utterances d @ rows
         \<and> list_all2 stores (takeWhile valid_utterance utts) rows
         \<and> (\<forall>u\<in>set rows. Utterance_file u = File_id f)
         \<and> (list_all valid_utterance utts \<longrightarrow> res = Inr (File_id f))
         \<and> (\<not> list_all valid_utterance utts \<longrightarrow>
              \<not> succeeds (utterance_kwargs (hd (dropWhile valid_utterance utts)))
              \<and> res = Inl (projl (utterance_kwargs (hd (dropWhile valid_utterance utts)))))"
      by blast
  qed
  from files no_iter loop show ?thesis by blast
qed

theorem writes_are_kept_one_by_one_witness:
  "persist empty_db ''/media/uploads/a.wav'' example_metadata (JObj broken_utterance_result)
     = (Inl (KeyError ''speaker''), example_db)
   \<and> files example_db = [example_file]
   \<and> list_all2 stores [example_utterance] (utterances example_db)
   \<and> Utterance_file (hd (utterances example_db)) = File_id example_file
   \<and> \<not> list_all valid_utterance [example_utterance, JObj [(''sequence'', JInt 2)]]
   \<and> utterance_kwargs (hd (dropWhile valid_utterance
          [example_utterance, JObj [(''sequence'', JInt 2)]])) = Inl (KeyError ''speaker'')"
proof -
  let ?utts = "[example_utterance, JObj [(''sequence'', JInt 2)]]"
  note t = writes_are_kept_one_by_one[OF example_broken_resolve_eval example_broken_file_eval
      example_broken_persist_eval]
  from t have fs: "files example_db = files empty_db @ [example_file]"
    by blast
  then have fs': "files example_db = [example_file]"
    by (simp add: empty_db_def)
  from t example_broken_iter_eval example_broken_plain obtain rows where
    us: "utterances example_db = utterances empty_db @ rows"
    and st: "list_all2 stores (takeWhile valid_utterance ?utts) rows"
    and ref: "\<forall>u\<in>set rows. Utterance_file u = File_id example_file"
    by blast
  from us have us': "utterances example_db = rows"
    by (simp add: empty_db_def)
  from st have st': "list_all2 stores [example_utterance] rows"
    unfolding example_broken_prefix .
  then have "rows \<noteq> []" by auto
  with ref have "Utterance_file (hd rows) = File_id example_file"
    by simp
  with fs' us' st' example_broken_persist_eval example_broken_not_all
    example_broken_first_failure
  show ?thesis
    by simp
qed

section \<open>The same document twice\<close>

lemma persist_Inr:
  assumes "persist d p md r = (Inr i, d')"
  shows "\<exists>t d0. resolve_topic d md r = (Inr t, d0) \<and> create_rows d0 t p r = (Inr i, d')"
  using assms by (auto simp: persist_def split: sum.splits prod.splits)

lemma example_twice_eval:
  "fst (persist example_db ''/media/uploads/a.wav'' example_metadata (JObj example_result))
   = Inr 2"
  by code_simp

text \<open>
  Claim C8. persist looks for no earlier File row of the same path. When a call of
  persist has succeeded, a second call with the same path, metadata and document
  succeeds too: it returns another primary key and appends a second File row, which
  is the first one but for its primary key (same path, same Topic, same values),
  and a second full set of Utterance rows, which hold the values of the same
  entries in the same order and refer to the second File row, those of the first
  call referring to the first. No Topic row is added by the second call.
\<close>

theorem persist_twice_makes_two_files:
  assumes "persist d p md r = (Inr id1, d1)"
  shows "\<exists>id2 d2 f1 f2 rows1 rows2 utts.
      persist d1 p md r = (Inr id2, d2) \<and> id2 \<noteq> id1
      \<and> files d1 = files d @ [f1] \<and> files d2 = files d @ [f1, f2]
      \<and> File_id f1 = id1 \<and> File_id f2 = id2 \<and> f2 = f1\<lparr>File_id := id2\<rparr>
      \<and> File_path f1 = p
      \<and> and_then (py_get r ''utterances'' (JList [])) py_iter = Inr utts
      \<and> utterances d1 = utterances d @ rows1
      \<and> utterances d2 = utterances d @ rows1 @ rows2
      \<and> list_all2 stores utts rows1 \<and> list_all2 stores utts rows2
      \<and> (\<forall>u\<in>set rows1. Utterance_file u = id1)
      \<and> (\<forall>u\<in>set rows2. Utterance_file u = id2)
      \<and> topics d2 = topics d1"
proof -
  from persist_Inr[OF assms] obtain t d0 where
    rt: "resolve_topic d md r = (Inr t, d0)" and cr: "create_rows d0 t p r = (Inr id1, d1)"
    by blast
  note o = resolve_topic_others[OF rt]
  from create_rows_Inr[OF cr] obtain f1 d0' utts where
    cf: "create_file d0 t p r = (Inr f1, d0')"
    and it: "and_then (py_get r ''utterances'' (JList [])) py_iter = Inr utts"
    and cu: "create_utterances d0' f1 utts = (Inr (), d1)"
    and id1: "id1 = File_id f1"
    by blast
  note f1 = create_file_Inr[OF cf]
  from create_utterances_rows[OF cu] obtain rows1 where
    d1: "d1 = d0'\<lparr>utterances := utterances d0' @ rows1,
                  Utterance_seq := Utterance_seq d0' + length rows1\<rparr>"
    and st1: "list_all2 stores (take (length rows1) utts) rows1"
    and ref1: "\<forall>u\<in>set rows1. Utterance_file u = File_id f1"
    and len1: "length rows1 = length utts"
    by auto
  from d1 f1 have topics1: "topics d1 = topics d0" and seq1: "File_seq d1 = Suc (File_seq d0)"
    by simp_all
  have rt2: "resolve_topic d1 md r = (Inr t, d1)"
    by (rule resolve_topic_reuse[OF rt topics1])
  let ?f2 = "f1\<lparr>File_id := Suc (File_seq d1)\<rparr>"
  let ?d1' = "d1\<lparr>files := files d1 @ [?f2], File_seq := Suc (File_seq d1)\<rparr>"
  have cf2: "create_file d1 t p r = (Inr ?f2, ?d1')"
    by (rule create_file_rekey[OF cf])
  from cu have "fst (create_utterances d0' f1 utts) = Inr ()" by simp
  from create_utterances_rekey[OF this, of ?d1' ?f2] obtain d2 where
    cu2: "create_utterances ?d1' ?f2 utts = (Inr (), d2)"
    by (cases "create_utterances ?d1' ?f2 utts") auto
  have cr2: "create_rows d1 t p r = (Inr (File_id ?f2), d2)"
    by (rule create_rows_compose[OF cf2 it cu2])
  with rt2 have ps2: "persist d1 p md r = (Inr (Suc (File_seq d1)), d2)"
    by (simp add: persist_def)
  from create_utterances_rows[OF cu2] obtain rows2 where
    d2: "d2 = ?d1'\<lparr>utterances := utterances ?d1' @ rows2,
                  Utterance_seq := Utterance_seq ?d1' + length rows2\<rparr>"
    and st2: "list_all2 stores (take (length rows2) utts) rows2"
    and ref2: "\<forall>u\<in>set rows2. Utterance_file u = File_id ?f2"
    and len2: "length rows2 = length utts"
    by auto
  from id1 f1 seq1 have ne: "Suc (File_seq d1) \<noteq> id1" by simp
  from d1 f1 o have files1: "files d1 = files d @ [f1]" by simp
  from d2 files1 have files2: "files d2 = files d @ [f1, ?f2]" by simp
  from d1 f1 o have us1: "utterances d1 = utterances d @ rows1" by simp
  from d2 us1 have us2: "utterances d2 = utterances d @ rows1 @ rows2" by simp
  from st1 len1 have st1': "list_all2 stores utts rows1" by simp
  from st2 len2 have st2': "list_all2 stores utts rows2" by simp
  from ref1 id1 have ref1': "\<forall>u\<in>set rows1. Utterance_file u = id1" by simp
  from ref2 have ref2': "\<forall>u\<in>set rows2. Utterance_file u = Suc (File_seq d1)" by simp
  from d2 have topics2: "topics d2 = topics d1" by simp
  have path: "File_path f1 = p" using f1 by simp
  have fid1: "File_id f1 = id1" using id1 by simp
  have fid2: "File_id ?f2 = Suc (File_seq d1)" by simp
  have same: "?f2 = f1\<lparr>File_id := Suc (File_seq d1)\<rparr>" by simp
  show ?thesis
    by (intro exI[of _ "Suc (File_seq d1)"] exI[of _ d2] exI[of _ f1] exI[of _ ?f2]
          exI[of _ rows1] exI[of _ rows2] exI[of _ utts] conjI)
       (rule ps2 ne files1 files2 fid1 fid2 same path it us1 us2 st1' st2' ref1' ref2' topics2)+
qed

theorem persist_twice_makes_two_files_witness:
  "persist empty_db ''/media/uploads/a.wav'' example_metadata (JObj example_result)
     = (Inr 1, example_db)
   \<and> fst (persist example_db ''/media/uploads/a.wav'' example_metadata (JObj example_result))
     = Inr 2
   \<and> length (files (snd (persist example_db ''/media/uploads/a.wav'' example_metadata
                            (JObj example_result)))) = 2
   \<and> length (utterances (snd (persist example_db ''/media/uploads/a.wav'' example_metadata
                            (JObj example_result)))) = 2"
proof -
  let ?p = "''/media/uploads/a.wav''"
  from persist_twice_makes_two_files[OF example_persist_eval] obtain id2 d2 f1 f2 rows1 rows2 utts
    where ps: "persist example_db ?p example_metadata (JObj example_result) = (Inr id2, d2)"
      and fs: "files d2 = files empty_db @ [f1, f2]"
      and us1: "utterances example_db = utterances empty_db @ rows1"
      and us2: "utterances d2 = utterances empty_db @ rows1 @ rows2"
      and st1: "list_all2 stores utts rows1" and st2: "list_all2 stores utts rows2"
    by blast
  from us1 have "length rows1 = 1"
    by (auto simp: empty_db_def example_db_eval)
  moreover from st1 st2 have "length rows2 = length rows1"
    using list_all2_lengthD[OF st1] list_all2_lengthD[OF st2] by simp
  ultimately have "length rows2 = 1"
    by simp
  with us2 \<open>length rows1 = 1\<close> have lu: "length (utterances d2) = 2"
    by (simp add: empty_db_def)
  from fs have lf: "length (files d2) = 2"
    by (simp add: empty_db_def)
  from ps have d2: "snd (persist example_db ?p example_metadata (JObj example_result)) = d2"
    by simp
  from lf lu d2 example_persist_eval example_twice_eval show ?thesis
    by simp
qed

section \<open>An utterance that ends before it starts\<close>


lemma resolve_topic_well_numbered:
  assumes "resolve_topic d md r = (res, d')" and "well_numbered d"
  shows "well_numbered d'"
proof (cases "topic_name_of md r")
  case (Inl e)
  with assms show ?thesis by (simp add: resolve_topic_def)
next
  case (Inr name)
  show ?thesis
  proof (cases "Topic_objects_get d name")
    case (Inr t)
    with assms \<open>topic_name_of md r = Inr name\<close> show ?thesis
      by (simp add: resolve_topic_def Topic_objects_get_or_create_def)
  next
    case (Inl e)
    show ?thesis
    proof (cases "e = DoesNotExist \<and> succeeds (CharField 100 name)")
      case True
      then obtain s where s: "CharField 100 name = Inr s"
        by (cases "CharField 100 name") simp_all
      with assms Inl True \<open>topic_name_of md r = Inr name\<close>
      have "d' = d\<lparr>topics := topics d @ [\<lparr>Topic_id = Suc (Topic_seq d), Topic_name = s\<rparr>],
                    Topic_seq := Suc (Topic_seq d)\<rparr>"
        by (auto simp: resolve_topic_def Topic_objects_get_or_create_def
            Topic_objects_create_def Let_def)
      with assms(2) show ?thesis
        by (auto simp: well_numbered_def list_all_iff)
    next
      case False
      with assms Inl \<open>topic_name_of md r = Inr name\<close> have "d' = d"
        by (cases "CharField 100 name"; cases e)
           (auto simp: resolve_topic_def Topic_objects_get_or_create_def
              Topic_objects_create_def Let_def)
      with assms(2) show ?thesis by simp
    qed
  qed
qed

lemma create_rows_well_numbered:
  assumes "create_rows d t p r = (res, d')" and "well_numbered d"
  shows "well_numbered d'"
proof (cases "create_file d t p r")
  case (Pair rf d1)
  show ?thesis
  proof (cases rf)
    case (Inl e)
    with Pair create_rows_file_failed[of d t p r e] assms show ?thesis by simp
  next
    case (Inr f)
    note f = create_file_Inr[OF Pair[unfolded Inr]]
    from create_rows_file_inserted[OF Pair[unfolded Inr] assms(1)] obtain rows where
      d': "d' = d1\<lparr>utterances := utterances d1 @ rows,
                   Utterance_seq := Utterance_seq d1 + length rows\<rparr>"
      and ids: "\<forall>u\<in>set rows. Utterance_id u \<le> Utterance_seq d1 + length rows"
      by blast
    from d' f ids assms(2) show ?thesis
      by (auto simp: well_numbered_def list_all_iff)
  qed
qed

lemma persist_well_numbered:
  assumes "well_numbered d"
  shows "well_numbered (snd (persist d p md r))"
proof (cases "resolve_topic d md r")
  case (Pair rt d1)
  note wn = resolve_topic_well_numbered[OF Pair assms]
  show ?thesis
  proof (cases rt)
    case (Inl e)
    with Pair wn show ?thesis by (simp add: persist_def)
  next
    case (Inr t)
    obtain res d2 where cr: "create_rows d1 t p r = (res, d2)"
      by (cases "create_rows d1 t p r")
    from create_rows_well_numbered[OF cr wn] Pair Inr cr show ?thesis
      by (simp add: persist_def)
  qed
qed












section \<open>One row for a session\<close>

lemma count_of_distinct_key:
  "distinct (map key xs) \<Longrightarrow> length (filter (\<lambda>x. key x = k) xs) \<le> 1"
proof (induction xs)
  case Nil
  then show ?case by simp
next
  case (Cons x xs)
  show ?case
  proof (cases "key x = k")
    case True
    with Cons.prems have "k \<notin> key ` set xs" by auto
    then have "filter (\<lambda>x. key x = k) xs = []"
      by (auto simp: filter_empty_conv)
    with True show ?thesis by simp
  next
    case False
    with Cons show ?thesis by simp
  qed
qed

lemma reachable_distinct:
  "reachable d \<Longrightarrow>
     distinct (map (\<lambda>x. (EmotionScore_session x, EmotionScore_actor x)) (emotion_scores d))
     \<and> distinct (map Category_session (categories d))
     \<and> distinct (map ScriptMetric_session (script_metrics d))
     \<and> distinct (map ResultClassification_session (result_classifications d))"
proof (induction rule: reachable.induct)
  case reachable_empty
  then show ?case by (simp add: empty_consult_db_def)
next
  case (reachable_Session d s d')
  then show ?case by (auto simp: Session_insert_def split: if_splits)
next
  case (reachable_TopNoun d t d')
  then show ?case by (auto simp: TopNoun_insert_def split: if_splits)
next
  case (reachable_EmotionScore d e d')
  then show ?case by (auto simp: EmotionScore_insert_def split: if_splits)
next
  case (reachable_Category d c d')
  then show ?case by (auto simp: Category_insert_def split: if_splits)
next
  case (reachable_ScriptMetric d m d')
  then show ?case by (auto simp: ScriptMetric_insert_def split: if_splits)
next
  case (reachable_ResultClassification d c d')
  then show ?case by (auto simp: ResultClassification_insert_def split: if_splits)
qed

lemma example_consult_reachable: "reachable example_consult_db"
proof -
  let ?d1 = "empty_consult_db\<lparr>sessions := [example_session]\<rparr>"
  let ?d2 = "?d1\<lparr>emotion_scores := [example_emotion ''customer''\<lparr>EmotionScore_id := 1\<rparr>]\<rparr>"
  let ?d3 = "?d2\<lparr>categories := [example_category\<lparr>Category_id := 1\<rparr>]\<rparr>"
  let ?d4 = "?d3\<lparr>script_metrics := [example_script_metric\<lparr>ScriptMetric_id := 1\<rparr>]\<rparr>"
  have s1: "Session_insert empty_consult_db example_session = Inr ?d1"
    by (simp add: Session_insert_def session_exists_def empty_consult_db_def)
  have s2: "EmotionScore_insert ?d1 (example_emotion ''customer'') = Inr ?d2"
    by (simp add: EmotionScore_insert_def session_exists_def empty_consult_db_def
        example_emotion_def example_session_def)
  have s3: "Category_insert ?d2 example_category = Inr ?d3"
    by (simp add: Category_insert_def session_exists_def empty_consult_db_def
        example_category_def example_session_def)
  have s4: "ScriptMetric_insert ?d3 example_script_metric = Inr ?d4"
    by (simp add: ScriptMetric_insert_def session_exists_def empty_consult_db_def
        example_script_metric_def example_session_def)
  have s5: "ResultClassification_insert ?d4 example_result_classification
      = Inr example_consult_db"
    by (simp add: ResultClassification_insert_def session_exists_def empty_consult_db_def
        example_result_classification_def example_session_def example_consult_db_def)
  from reachable_empty have "reachable ?d1" by (rule reachable_Session) (rule s1)
  then have "reachable ?d2" by (rule reachable_EmotionScore) (rule s2)
  then have "reachable ?d3" by (rule reachable_Category) (rule s3)
  then have "reachable ?d4" by (rule reachable_ScriptMetric) (rule s4)
  then show ?thesis by (rule reachable_ResultClassification) (rule s5)
qed

text \<open>
  Claim C7. An EmotionScore row whose (session, actor) pair a row of the table
  already has is refused with a uniqueness violation, and so is a Category, a
  ScriptMetric or a ResultClassification row whose session a row of its table
  already has. A row with an unused key and an existing session is taken, and
  appended under the next \<open>id\<close>; after that a second row with its key is refused.
  So in every database that inserts build from the empty one, EmotionScore has at
  most one row for each (session, actor) pair, and Category, ScriptMetric and
  ResultClassification have at most one row for each session.
\<close>

theorem second_row_is_refused:
  "((EmotionScore_session e, EmotionScore_actor e)
         \<in> set (map (\<lambda>x. (EmotionScore_session x, EmotionScore_actor x)) (emotion_scores d)) \<longrightarrow>
       EmotionScore_insert d e = Inl (IntegrityError Unique))
   \<and> (Category_session c \<in> set (map Category_session (categories d)) \<longrightarrow>
       Category_insert d c = Inl (IntegrityError Unique))
   \<and> (ScriptMetric_session m \<in> set (map ScriptMetric_session (script_metrics d)) \<longrightarrow>
       ScriptMetric_insert d m = Inl (IntegrityError Unique))
   \<and> (ResultClassification_session rc
         \<in> set (map ResultClassification_session (result_classifications d)) \<longrightarrow>
       ResultClassification_insert d rc = Inl (IntegrityError Unique))
   \<and> ((EmotionScore_session e, EmotionScore_actor e)
         \<notin> set (map (\<lambda>x. (EmotionScore_session x, EmotionScore_actor x)) (emotion_scores d))
       \<and> session_exists d (EmotionScore_session e) \<longrightarrow>
       EmotionScore_insert d e
         = Inr (d\<lparr>emotion_scores := emotion_scores d
                     @ [e\<lparr>EmotionScore_id := Suc (length (emotion_scores d))\<rparr>]\<rparr>)
       \<and> (\<forall>e2. EmotionScore_session e2 = EmotionScore_session e
                \<and> EmotionScore_actor e2 = EmotionScore_actor e \<longrightarrow>
             EmotionScore_insert
               (d\<lparr>emotion_scores := emotion_scores d
                     @ [e\<lparr>EmotionScore_id := Suc (length (emotion_scores d))\<rparr>]\<rparr>) e2
               = Inl (IntegrityError Unique)))
   \<and> (Category_session c \<notin> set (map Category_session (categories d))
       \<and> session_exists d (Category_session c) \<longrightarrow>
       Category_insert d c
         = Inr (d\<lparr>categories := categories d
                     @ [c\<lparr>Category_id := Suc (length (categories d))\<rparr>]\<rparr>)
       \<and> (\<forall>c2. Category_session c2 = Category_session c \<longrightarrow>
             Category_insert
               (d\<lparr>categories := categories d
                     @ [c\<lparr>Category_id := Suc (length (categories d))\<rparr>]\<rparr>) c2
               = Inl (IntegrityError Unique)))
   \<and> (ScriptMetric_session m \<notin> set (map ScriptMetric_session (script_metrics d))
       \<and> session_exists d (ScriptMetric_session m) \<longrightarrow>
       ScriptMetric_insert d m
         = Inr (d\<lparr>script_metrics := script_metrics d
                     @ [m\<lparr>ScriptMetric_id := Suc (length (script_metrics d))\<rparr>]\<rparr>)
       \<and> (\<forall>m2. ScriptMetric_session m2 = ScriptMetric_session m \<longrightarrow>
             ScriptMetric_insert
               (d\<lparr>script_metrics := script_metrics d
                     @ [m\<lparr>ScriptMetric_id := Suc (length (script_metrics d))\<rparr>]\<rparr>) m2
               = Inl (IntegrityError Unique)))
   \<and> (ResultClassification_session rc
         \<notin> set (map ResultClassification_session (result_classifications d))
       \<and> session_exists d (ResultClassification_session rc) \<longrightarrow>
       ResultClassification_insert d rc
         = Inr (d\<lparr>result_classifications := result_classifications d
                     @ [rc\<lparr>ResultClassification_id :=
                            Suc (length (result_classifications d))\<rparr>]\<rparr>)
       \<and> (\<forall>rc2. ResultClassification_session rc2 = ResultClassification_session rc \<longrightarrow>
             ResultClassification_insert
               (d\<lparr>result_classifications := result_classifications d
                     @ [rc\<lparr>ResultClassification_id :=
                            Suc (length (result_classifications d))\<rparr>]\<rparr>) rc2
               = Inl (IntegrityError Unique)))
   \<and> (reachable d \<longrightarrow>
        (\<forall>s a. length (filter (\<lambda>x. EmotionScore_session x = s \<and> EmotionScore_actor x = a)
                          (emotion_scores d)) \<le> 1)
        \<and> (\<forall>s. length (filter (\<lambda>x. Category_session x = s) (categories d)) \<le> 1)
        \<and> (\<forall>s. length (filter (\<lambda>x. ScriptMetric_session x = s) (script_metrics d)) \<le> 1)
        \<and> (\<forall>s. length (filter (\<lambda>x. ResultClassification_session x = s)
                        (result_classifications d)) \<le> 1))"
proof -
  have refuse: "((EmotionScore_session e, EmotionScore_actor e)
         \<in> set (map (\<lambda>x. (EmotionScore_session x, EmotionScore_actor x)) (emotion_scores d)) \<longrightarrow>
       EmotionScore_insert d e = Inl (IntegrityError Unique))
   \<and> (Category_session c \<in> set (map Category_session (categories d)) \<longrightarrow>
       Category_insert d c = Inl (IntegrityError Unique))
   \<and> (ScriptMetric_session m \<in> set (map ScriptMetric_session (script_metrics d)) \<longrightarrow>
       ScriptMetric_insert d m = Inl (IntegrityError Unique))
   \<and> (ResultClassification_session rc
         \<in> set (map ResultClassification_session (result_classifications d)) \<longrightarrow>
       ResultClassification_insert d rc = Inl (IntegrityError Unique))"
    by (simp add: EmotionScore_insert_def Category_insert_def ScriptMetric_insert_def
        ResultClassification_insert_def)
  have take_e: "(EmotionScore_session e, EmotionScore_actor e)
         \<notin> set (map (\<lambda>x. (EmotionScore_session x, EmotionScore_actor x)) (emotion_scores d))
       \<and> session_exists d (EmotionScore_session e) \<longrightarrow>
       EmotionScore_insert d e
         = Inr (d\<lparr>emotion_scores := emotion_scores d
                     @ [e\<lparr>EmotionScore_id := Suc (length (emotion_scores d))\<rparr>]\<rparr>)
       \<and> (\<forall>e2. EmotionScore_session e2 = EmotionScore_session e
                \<and> EmotionScore_actor e2 = EmotionScore_actor e \<longrightarrow>
             EmotionScore_insert
               (d\<lparr>emotion_scores := emotion_scores d
                     @ [e\<lparr>EmotionScore_id := Suc (length (emotion_scores d))\<rparr>]\<rparr>) e2
               = Inl (IntegrityError Unique))"
    by (simp add: EmotionScore_insert_def)
  have take_c: "Category_session c \<notin> set (map Category_session (categories d))
       \<and> session_exists d (Category_session c) \<longrightarrow>
       Category_insert d c
         = Inr (d\<lparr>categories := categories d
                     @ [c\<lparr>Category_id := Suc (length (categories d))\<rparr>]\<rparr>)
       \<and> (\<forall>c2. Category_session c2 = Category_session c \<longrightarrow>
             Category_insert
               (d\<lparr>categories := categories d
                     @ [c\<lparr>Category_id := Suc (length (categories d))\<rparr>]\<rparr>) c2
               = Inl (IntegrityError Unique))"
    by (simp add: Category_insert_def)
  have take_m: "ScriptMetric_session m \<notin> set (map ScriptMetric_session (script_metrics d))
       \<and> session_exists d (ScriptMetric_session m) \<longrightarrow>
       ScriptMetric_insert d m
         = Inr (d\<lparr>script_metrics := script_metrics d
                     @ [m\<lparr>ScriptMetric_id := Suc (length (script_metrics d))\<rparr>]\<rparr>)
       \<and> (\<forall>m2. ScriptMetric_session m2 = ScriptMetric_session m \<longrightarrow>
             ScriptMetric_insert
               (d\<lparr>script_metrics := script_metrics d
                     @ [m\<lparr>ScriptMetric_id := Suc (length (script_metrics d))\<rparr>]\<rparr>) m2
               = Inl (IntegrityError Unique))"
    by (simp add: ScriptMetric_insert_def)
  have take_r: "ResultClassification_session rc
         \<notin> set (map ResultClassification_session (result_classifications d))
       \<and> session_exists d (ResultClassification_session rc) \<longrightarrow>
       ResultClassification_insert d rc
         = Inr (d\<lparr>result_classifications := result_classifications d
                     @ [rc\<lparr>ResultClassification_id :=
                            Suc (length (result_classifications d))\<rparr>]\<rparr>)
       \<and> (\<forall>rc2. ResultClassification_session rc2 = ResultClassification_session rc \<longrightarrow>
             ResultClassification_insert
               (d\<lparr>result_classifications := result_classifications d
                     @ [rc\<lparr>ResultClassification_id :=
                            Suc (length (result_classifications d))\<rparr>]\<rparr>) rc2
               = Inl (IntegrityError Unique))"
    by (simp add: ResultClassification_insert_def)
  have inv: "reachable d \<longrightarrow>
        (\<forall>s a. length (filter (\<lambda>x. EmotionScore_session x = s \<and> EmotionScore_actor x = a)
                          (emotion_scores d)) \<le> 1)
        \<and> (\<forall>s. length (filter (\<lambda>x. Category_session x = s) (categories d)) \<le> 1)
        \<and> (\<forall>s. length (filter (\<lambda>x. ScriptMetric_session x = s) (script_metrics d)) \<le> 1)
        \<and> (\<forall>s. length (filter (\<lambda>x. ResultClassification_session x = s)
                        (result_classifications d)) \<le> 1)"
  proof
    assume "reachable d"
    note dis = reachable_distinct[OF this]
    have "\<And>s a. length (filter (\<lambda>x. EmotionScore_session x = s \<and> EmotionScore_actor x = a)
                          (emotion_scores d)) \<le> 1"
    proof -
      fix s a
      from count_of_distinct_key[of "\<lambda>x. (EmotionScore_session x, EmotionScore_actor x)"
          "emotion_scores d" "(s, a)"] dis
      show "length (filter (\<lambda>x. EmotionScore_session x = s \<and> EmotionScore_actor x = a)
                          (emotion_scores d)) \<le> 1"
        by simp
    qed
    moreover have "\<And>s. length (filter (\<lambda>x. Category_session x = s) (categories d)) \<le> 1"
      using count_of_distinct_key[of Category_session "categories d"] dis by simp
    moreover have "\<And>s. length (filter (\<lambda>x. ScriptMetric_session x = s) (script_metrics d)) \<le> 1"
      using count_of_distinct_key[of ScriptMetric_session "script_metrics d"] dis by simp
    moreover have "\<And>s. length (filter (\<lambda>x. ResultClassification_session x = s)
                        (result_classifications d)) \<le> 1"
      using count_of_distinct_key[of ResultClassification_session "result_classifications d"]
        dis by simp
    ultimately show "(\<forall>s a. length (filter (\<lambda>x. EmotionScore_session x = s \<and> EmotionScore_actor x = a)
                          (emotion_scores d)) \<le> 1)
        \<and> (\<forall>s. length (filter (\<lambda>x. Category_session x = s) (categories d)) \<le> 1)
        \<and> (\<forall>s. length (filter (\<lambda>x. ScriptMetric_session x = s) (script_metrics d)) \<le> 1)
        \<and> (\<forall>s. length (filter (\<lambda>x. ResultClassification_session x = s)
                        (result_classifications d)) \<le> 1)"
      by blast
  qed
  from refuse take_e take_c take_m take_r inv show ?thesis
    by (intro conjI) blast+
qed

theorem second_row_is_refused_witness:
  "reachable example_consult_db
   \<and> EmotionScore_insert example_consult_db (example_emotion ''customer'')
       = Inl (IntegrityError Unique)
   \<and> Category_insert example_consult_db example_category = Inl (IntegrityError Unique)
   \<and> ScriptMetric_insert example_consult_db example_script_metric
       = Inl (IntegrityError Unique)
   \<and> ResultClassification_insert example_consult_db example_result_classification
       = Inl (IntegrityError Unique)
   \<and> succeeds (EmotionScore_insert example_consult_db (example_emotion ''agent''))
   \<and> length (filter (\<lambda>x. Category_session x = ''s1'') (categories example_consult_db)) \<le> 1"
proof -
  note used = second_row_is_refused[of "example_emotion ''customer''" example_consult_db
      example_category example_script_metric example_result_classification]
  note fresh = second_row_is_refused[of "example_emotion ''agent''" example_consult_db
      example_category example_script_metric example_result_classification]
  have k1: "(EmotionScore_session (example_emotion ''customer''),
             EmotionScore_actor (example_emotion ''customer''))
      \<in> set (map (\<lambda>x. (EmotionScore_session x, EmotionScore_actor x))
                (emotion_scores example_consult_db))"
    by (simp add: example_consult_db_def example_emotion_def)
  have k2: "Category_session example_category
      \<in> set (map Category_session (categories example_consult_db))"
    by (simp add: example_consult_db_def example_category_def)
  have k3: "ScriptMetric_session example_script_metric
      \<in> set (map ScriptMetric_session (script_metrics example_consult_db))"
    by (simp add: example_consult_db_def example_script_metric_def)
  have k4: "ResultClassification_session example_result_classification
      \<in> set (map ResultClassification_session (result_classifications example_consult_db))"
    by (simp add: example_consult_db_def example_result_classification_def)
  have k5: "(EmotionScore_session (example_emotion ''agent''),
             EmotionScore_actor (example_emotion ''agent''))
      \<notin> set (map (\<lambda>x. (EmotionScore_session x, EmotionScore_actor x))
                (emotion_scores example_consult_db))
      \<and> session_exists example_consult_db (EmotionScore_session (example_emotion ''agent''))"
    by (simp add: example_consult_db_def example_emotion_def session_exists_def
        example_session_def)
  from used k1 have r1: "EmotionScore_insert example_consult_db (example_emotion ''customer'')
       = Inl (IntegrityError Unique)"
    by blast
  from used k2 have r2: "Category_insert example_consult_db example_category
       = Inl (IntegrityError Unique)"
    by blast
  from used k3 have r3: "ScriptMetric_insert example_consult_db example_script_metric
       = Inl (IntegrityError Unique)"
    by blast
  from used k4 have r4:
    "ResultClassification_insert example_consult_db example_result_classification
       = Inl (IntegrityError Unique)"
    by blast
  from fresh k5 have "\<exists>d'. EmotionScore_insert example_consult_db (example_emotion ''agent'')
       = Inr d'"
    by blast
  then have r5: "succeeds (EmotionScore_insert example_consult_db (example_emotion ''agent''))"
    by auto
  from used example_consult_reachable have r6:
    "length (filter (\<lambda>x. Category_session x = ''s1'') (categories example_consult_db)) \<le> 1"
    by blast
  from example_consult_reachable r1 r2 r3 r4 r5 r6 show ?thesis
    by blast
qed

end
